theory Spec2Isabelle
  imports Complex_Main
begin

section \<open>Constants of the exporter\<close>

text \<open>The label names and state values declared at the top of \<^verbatim>\<open>exporter.go\<close>.\<close>

definition StateLabel :: string where "StateLabel = ''state''"
definition NodekeyLabel :: string where "NodekeyLabel = ''nodekey''"
definition VotekeyLabel :: string where "VotekeyLabel = ''votekey''"
definition VersionLabel :: string where "VersionLabel = ''version''"
definition AddressLabel :: string where "AddressLabel = ''address''"
definition IdentityLabel :: string where "IdentityLabel = ''identity''"
definition StateCurrent :: string where "StateCurrent = ''current''"
definition StateDelinquent :: string where "StateDelinquent = ''delinquent''"

section \<open>Data model\<close>

text \<open>
  Metric values are Go \<^verbatim>\<open>float64\<close>s; the embedding takes a metric value to be the real
  number it denotes. The conversion \<^verbatim>\<open>float64(n)\<close> of an integer rounds \<open>n\<close> to the nearest
  number with a significand of 53 bits, a tie going to the even significand: with \<open>e\<close> the
  number of bits of \<open>\<bar>n\<bar>\<close> beyond 53, \<open>\<bar>n\<bar>\<close> is rounded to a multiple of \<open>2^e\<close>. The integers
  converted are 64-bit, so the result is always finite.
\<close>

fun bit_length :: "nat \<Rightarrow> nat" where
  "bit_length n = (if n = 0 then 0 else Suc (bit_length (n div 2)))"

definition round_to_float64 :: "int \<Rightarrow> int" where
  "round_to_float64 n =
     (let a = \<bar>n\<bar>;
          e = bit_length (nat a) - 53;
          q = a div 2 ^ e;
          r = a mod 2 ^ e;
          q' = (if 2 * r > 2 ^ e \<or> (2 * r = 2 ^ e \<and> odd q) then q + 1 else q)
      in sgn n * (q' * 2 ^ e))"

definition float64 :: "int \<Rightarrow> real" where
  "float64 n = real_of_int (round_to_float64 n)"

text \<open>
  \<^verbatim>\<open>float64(len(xs))\<close>. The length of a Go slice of records is far below \<open>2^53\<close> (the
  slice lies in the address space), and there the conversion is exact. The lists of the
  model have no such bound, so the conversion of a length is written as the exact one.
\<close>

definition float64_of_len :: "nat \<Rightarrow> real" where
  "float64_of_len n = real n"

text \<open>
  Modelled from the spec: \<^verbatim>\<open>rpc.RPCError\<close> is declared in another file. It is a
  structured protocol error that names the method and carries an optional opaque secondary
  payload, here a decoded JSON value; \<open>None\<close> is Go's \<^verbatim>\<open>nil\<close>. \<^verbatim>\<open>collectHealth\<close> only compares
  the payload with \<^verbatim>\<open>nil\<close> and hands the error to the decoder.
\<close>

datatype json = JNum int | JStr string | JObj "(string \<times> json) list"

record RPCError =
  Method :: string
  Data :: "json option"

text \<open>
  A Go \<^verbatim>\<open>error\<close>: a plain error, a structured RPC error, or an error wrapping another.
  \<^verbatim>\<open>errors.As(err, &rpcError)\<close> walks the chain of wrapped errors and yields the first
  \<^verbatim>\<open>*rpc.RPCError\<close> it meets.
\<close>

datatype go_error = ErrorString string | RpcErr RPCError | Wrapped string go_error

fun errors_As :: "go_error \<Rightarrow> RPCError option" where
  "errors_As (ErrorString _) = None"
| "errors_As (RpcErr e) = Some e"
| "errors_As (Wrapped _ e) = errors_As e"

text \<open>
  Modelled from the spec: \<^verbatim>\<open>rpc.NodeUnhealthyErrorData\<close> is declared in another file. It
  is the struct \<open>{numSlotsBehind: integer}\<close> that the payload of an unhealthy node decodes
  to; its zero value has \<open>NumSlotsBehind = 0\<close>.
\<close>

record NodeUnhealthyErrorData =
  NumSlotsBehind :: int

text \<open>
  Modelled from the spec: the vote-account types of package \<^verbatim>\<open>rpc\<close> are declared in
  another file. A record has the vote and node public keys and the integers activated
  stake, last vote and root slot; the answer of the query has two partitions.
\<close>

record VoteAccount =
  VotePubkey :: string
  NodePubkey :: string
  ActivatedStake :: int
  LastVote :: int
  RootSlot :: int

record VoteAccounts =
  Current :: "VoteAccount list"
  Delinquent :: "VoteAccount list"

datatype commitment = CommitmentConfirmed | CommitmentFinalized

text \<open>
  Modelled from the spec: the interface \<^verbatim>\<open>rpc.Provider\<close> is declared in another file.
  The record is the upstream node as one scrape sees it: the answer of each query that the
  collector makes. A Go result pair \<^verbatim>\<open>(value, err)\<close> is a sum, \<open>Inl\<close> the error;
  on success the returned pointers are taken to be non-nil, as the provider's contract has it.
\<close>

record Provider =
  GetVoteAccounts :: "commitment \<Rightarrow> go_error + VoteAccounts"
  GetVersion :: "go_error + string"
  GetHealth :: "go_error + string"
  GetMinimumLedgerSlot :: "go_error + int"
  GetFirstAvailableBlock :: "go_error + int"

text \<open>
  Two helpers that \<^verbatim>\<open>exporter.go\<close> calls and that live in other files, taken as parameters.
  \<open>FetchBalances\<close> stands for \<^verbatim>\<open>FetchBalances(ctx, c.rpcClient, addresses)\<close>, including the
  balance queries it sends upstream; its Go result is a map, given here as the list of
  entries in the order in which the \<^verbatim>\<open>range\<close> loop of this scrape visits them.
  \<open>UnpackRpcErrorData\<close> stands for \<^verbatim>\<open>rpc.UnpackRpcErrorData(rpcError, errorData)\<close>: it receives
  the error and a copy of the caller's \<^verbatim>\<open>errorData\<close> struct, and returns an error or
  \<^verbatim>\<open>nil\<close> (\<open>None\<close>).
\<close>

record Helpers =
  FetchBalances :: "string list \<Rightarrow> go_error + (string \<times> real) list"
  UnpackRpcErrorData :: "RPCError \<Rightarrow> NodeUnhealthyErrorData \<Rightarrow> go_error option"

subsection \<open>Metric descriptors and observations\<close>

text \<open>
  Modelled from the spec: \<^verbatim>\<open>GaugeDesc\<close>, \<^verbatim>\<open>NewGaugeDesc\<close>, \<^verbatim>\<open>MustNewConstMetric\<close> and
  \<^verbatim>\<open>NewInvalidMetric\<close> are declared in another file. A descriptor has a name, a help text
  and ordered label names; an observation is a value with label values, or a failure
  sentinel carrying the error. \<open>MustNewConstMetric\<close> fails (\<open>None\<close>) when the number of label
  values differs from the number of label names; \<open>NewInvalidMetric\<close> always succeeds.
\<close>

record GaugeDesc =
  Name :: string
  Help :: string
  VariableLabels :: "string list"

definition NewGaugeDesc :: "string \<Rightarrow> string \<Rightarrow> string list \<Rightarrow> GaugeDesc" where
  "NewGaugeDesc name description variableLabels =
     \<lparr>Name = name, Help = description, VariableLabels = variableLabels\<rparr>"

datatype Metric =
    ConstMetric GaugeDesc real "string list"
  | InvalidMetric GaugeDesc go_error

definition MustNewConstMetric :: "GaugeDesc \<Rightarrow> real \<Rightarrow> string list \<Rightarrow> Metric option" where
  "MustNewConstMetric d v labels =
     (if length labels \<noteq> length (VariableLabels d) then None
      else Some (ConstMetric d v labels))"

definition NewInvalidMetric :: "GaugeDesc \<Rightarrow> go_error \<Rightarrow> Metric" where
  "NewInvalidMetric d err = InvalidMetric d err"

fun desc_of :: "Metric \<Rightarrow> GaugeDesc" where
  "desc_of (ConstMetric d _ _) = d"
| "desc_of (InvalidMetric d _) = d"

fun is_invalid :: "Metric \<Rightarrow> bool" where
  "is_invalid (ConstMetric _ _ _) = False"
| "is_invalid (InvalidMetric _ _) = True"

text \<open>The observations of one metric family among those sent, in the order sent.\<close>

definition family :: "string \<Rightarrow> Metric list \<Rightarrow> Metric list" where
  "family n ms = filter (\<lambda>m. Name (desc_of m) = n) ms"

subsection \<open>The address-set builder\<close>

text \<open>
  Modelled from the spec: \<^verbatim>\<open>CombineUnique\<close> is declared in another file. It merges the given
  lists into one deduplicated collection; the collector stores the result in a slice, so
  the model returns a list without repetitions, whose elements are the set built.
\<close>

definition add_unique :: "string \<Rightarrow> string list \<Rightarrow> string list" where
  "add_unique item uniqueItems =
     (if item \<in> set uniqueItems then uniqueItems else uniqueItems @ [item])"

definition CombineUnique :: "string list list \<Rightarrow> string list" where
  "CombineUnique args = fold (\<lambda>items acc. fold add_unique items acc) args []"

section \<open>Effects of a scrape\<close>

text \<open>
  What \<^verbatim>\<open>Collect\<close> does to the outside world is recorded in a state that every operation
  extends: the metrics sent on the channel \<^verbatim>\<open>ch\<close>, the log lines written, and the upstream
  calls made, each in order. \<^verbatim>\<open>logger.Fatalf\<close> writes its line and ends the process; a
  label-arity violation ends it as well. Once the process has ended, nothing more happens:
  every operation leaves a state that is not \<open>Running\<close> as it is.
\<close>

datatype Status = Running | Exited | LabelArityViolation

datatype LogEntry =
    ErrorEntry string go_error
  | FatalEntry string string go_error

datatype Call =
    CallGetVoteAccounts
  | CallGetVersion
  | CallFetchBalances
  | CallGetHealth
  | CallUnpackRpcErrorData
  | CallGetMinimumLedgerSlot
  | CallGetFirstAvailableBlock

record Run =
  ch :: "Metric list"
  logged :: "LogEntry list"
  calls :: "Call list"
  status :: Status

definition start :: Run where
  "start = \<lparr>ch = [], logged = [], calls = [], status = Running\<rparr>"

definition invoke :: "Call \<Rightarrow> Run \<Rightarrow> Run" where
  "invoke k s = (if status s = Running then s\<lparr>calls := calls s @ [k]\<rparr> else s)"

definition send :: "Metric \<Rightarrow> Run \<Rightarrow> Run" where
  "send m s = (if status s = Running then s\<lparr>ch := ch s @ [m]\<rparr> else s)"

text \<open>\<^verbatim>\<open>ch <- d.MustNewConstMetric(v, labels...)\<close>: the metric is built, then sent.\<close>

definition send_must :: "Metric option \<Rightarrow> Run \<Rightarrow> Run" where
  "send_must mo s =
     (if status s = Running
      then (case mo of None \<Rightarrow> s\<lparr>status := LabelArityViolation\<rparr> | Some m \<Rightarrow> send m s)
      else s)"

definition logger_Errorf :: "string \<Rightarrow> go_error \<Rightarrow> Run \<Rightarrow> Run" where
  "logger_Errorf fmt err s =
     (if status s = Running then s\<lparr>logged := logged s @ [ErrorEntry fmt err]\<rparr> else s)"

definition logger_Fatalf :: "string \<Rightarrow> string \<Rightarrow> go_error \<Rightarrow> Run \<Rightarrow> Run" where
  "logger_Fatalf fmt method err s =
     (if status s = Running
      then s\<lparr>logged := logged s @ [FatalEntry fmt method err], status := Exited\<rparr>
      else s)"

text \<open>A sequence of statements.\<close>

definition steps :: "(Run \<Rightarrow> Run) list \<Rightarrow> Run \<Rightarrow> Run" where
  "steps fs s = fold (\<lambda>f t. f t) fs s"

section \<open>The collector\<close>

record SolanaCollector =
  rpcClient :: Provider
  slotPace :: nat
  balanceAddresses :: "string list"
  identity :: string
  ValidatorActive :: GaugeDesc
  ValidatorActiveStake :: GaugeDesc
  ValidatorLastVote :: GaugeDesc
  ValidatorRootSlot :: GaugeDesc
  ValidatorDelinquent :: GaugeDesc
  AccountBalances :: GaugeDesc
  NodeVersion :: GaugeDesc
  NodeIsHealthy :: GaugeDesc
  NodeNumSlotsBehind :: GaugeDesc
  NodeMinimumLedgerSlot :: GaugeDesc
  NodeFirstAvailableBlock :: GaugeDesc

text \<open>The help texts are the results of the \<^verbatim>\<open>fmt.Sprintf\<close> calls, written as concatenations.\<close>

definition NewSolanaCollector ::
  "Provider \<Rightarrow> nat \<Rightarrow> string list \<Rightarrow> string list \<Rightarrow> string list \<Rightarrow> string \<Rightarrow> SolanaCollector" where
  "NewSolanaCollector provider pace balanceAddrs nodekeys votekeys ident =
     \<lparr>rpcClient = provider,
      slotPace = pace,
      balanceAddresses = CombineUnique [balanceAddrs, nodekeys, votekeys],
      identity = ident,
      ValidatorActive = NewGaugeDesc ''solana_validator_active''
        (''Total number of active validators, grouped by '' @ StateLabel @ '' ('' @ [CHR 0x27]
           @ StateCurrent @ [CHR 0x27] @ '' or '' @ [CHR 0x27] @ StateDelinquent @ [CHR 0x27] @ '')'')
        [StateLabel],
      ValidatorActiveStake = NewGaugeDesc ''solana_validator_active_stake''
        (''Active stake per validator (represented by '' @ VotekeyLabel @ '' and ''
           @ NodekeyLabel @ '')'')
        [VotekeyLabel, NodekeyLabel],
      ValidatorLastVote = NewGaugeDesc ''solana_validator_last_vote''
        (''Last voted-on slot per validator (represented by '' @ VotekeyLabel @ '' and ''
           @ NodekeyLabel @ '')'')
        [VotekeyLabel, NodekeyLabel],
      ValidatorRootSlot = NewGaugeDesc ''solana_validator_root_slot''
        (''Root slot per validator (represented by '' @ VotekeyLabel @ '' and ''
           @ NodekeyLabel @ '')'')
        [VotekeyLabel, NodekeyLabel],
      ValidatorDelinquent = NewGaugeDesc ''solana_validator_delinquent''
        (''Whether a validator (represented by '' @ VotekeyLabel @ '' and ''
           @ NodekeyLabel @ '') is delinquent'')
        [VotekeyLabel, NodekeyLabel],
      AccountBalances = NewGaugeDesc ''solana_account_balance''
        (''Solana account balances, grouped by '' @ AddressLabel)
        [AddressLabel],
      NodeVersion = NewGaugeDesc ''solana_node_version''
        ''Node version of solana''
        [VersionLabel],
      NodeIsHealthy = NewGaugeDesc ''solana_node_is_healthy''
        (''Whether a node ('' @ IdentityLabel @ '') is healthy'')
        [IdentityLabel],
      NodeNumSlotsBehind = NewGaugeDesc ''solana_node_num_slots_behind''
        (''The number of slots that the node ('' @ IdentityLabel
           @ '') is behind the latest cluster confirmed slot.'')
        [IdentityLabel],
      NodeMinimumLedgerSlot = NewGaugeDesc ''solana_node_minimum_ledger_slot''
        (''The lowest slot that the node ('' @ IdentityLabel
           @ '') has information about in its ledger.'')
        [IdentityLabel],
      NodeFirstAvailableBlock = NewGaugeDesc ''solana_node_first_available_block''
        (''The slot of the lowest confirmed block that has not been purged from the node''
           @ [CHR 0x27] @ ''s ('' @ IdentityLabel @ '') ledger.'')
        [IdentityLabel]\<rparr>"

definition collectVoteAccounts :: "SolanaCollector \<Rightarrow> Run \<Rightarrow> Run" where
  "collectVoteAccounts c s =
     (case GetVoteAccounts (rpcClient c) CommitmentConfirmed of
        Inl err \<Rightarrow>
          steps
            [invoke CallGetVoteAccounts,
             logger_Errorf ''failed to get vote accounts: %v'' err,
             send (NewInvalidMetric (ValidatorActive c) err),
             send (NewInvalidMetric (ValidatorActiveStake c) err),
             send (NewInvalidMetric (ValidatorLastVote c) err),
             send (NewInvalidMetric (ValidatorRootSlot c) err),
             send (NewInvalidMetric (ValidatorDelinquent c) err)] s
      | Inr voteAccounts \<Rightarrow>
          steps
            [invoke CallGetVoteAccounts,
             send_must (MustNewConstMetric (ValidatorActive c)
               (float64_of_len (length (Delinquent voteAccounts))) [StateDelinquent]),
             send_must (MustNewConstMetric (ValidatorActive c)
               (float64_of_len (length (Current voteAccounts))) [StateCurrent]),
             fold (\<lambda>account.
                 let accounts = [VotePubkey account, NodePubkey account] in
                 steps
                   [send_must (MustNewConstMetric (ValidatorActiveStake c)
                      (float64 (ActivatedStake account)) accounts),
                    send_must (MustNewConstMetric (ValidatorLastVote c)
                      (float64 (LastVote account)) accounts),
                    send_must (MustNewConstMetric (ValidatorRootSlot c)
                      (float64 (RootSlot account)) accounts)])
               (Current voteAccounts @ Delinquent voteAccounts),
             fold (\<lambda>account.
                 send_must (MustNewConstMetric (ValidatorDelinquent c) 0
                   [VotePubkey account, NodePubkey account]))
               (Current voteAccounts),
             fold (\<lambda>account.
                 send_must (MustNewConstMetric (ValidatorDelinquent c) 1
                   [VotePubkey account, NodePubkey account]))
               (Delinquent voteAccounts)] s)"

definition collectVersion :: "SolanaCollector \<Rightarrow> Run \<Rightarrow> Run" where
  "collectVersion c s =
     (case GetVersion (rpcClient c) of
        Inl err \<Rightarrow>
          steps
            [invoke CallGetVersion,
             logger_Errorf ''failed to get version: %v'' err,
             send (NewInvalidMetric (NodeVersion c) err)] s
      | Inr version \<Rightarrow>
          steps
            [invoke CallGetVersion,
             send_must (MustNewConstMetric (NodeVersion c) 1 [version])] s)"

definition collectMinimumLedgerSlot :: "SolanaCollector \<Rightarrow> Run \<Rightarrow> Run" where
  "collectMinimumLedgerSlot c s =
     (case GetMinimumLedgerSlot (rpcClient c) of
        Inl err \<Rightarrow>
          steps
            [invoke CallGetMinimumLedgerSlot,
             logger_Errorf ''failed to get minimum lidger slot: %v'' err,
             send (NewInvalidMetric (NodeMinimumLedgerSlot c) err)] s
      | Inr slot \<Rightarrow>
          steps
            [invoke CallGetMinimumLedgerSlot,
             send_must (MustNewConstMetric (NodeMinimumLedgerSlot c) (float64 slot)
               [identity c])] s)"

definition collectFirstAvailableBlock :: "SolanaCollector \<Rightarrow> Run \<Rightarrow> Run" where
  "collectFirstAvailableBlock c s =
     (case GetFirstAvailableBlock (rpcClient c) of
        Inl err \<Rightarrow>
          steps
            [invoke CallGetFirstAvailableBlock,
             logger_Errorf ''failed to get first available block: %v'' err,
             send (NewInvalidMetric (NodeFirstAvailableBlock c) err)] s
      | Inr block \<Rightarrow>
          steps
            [invoke CallGetFirstAvailableBlock,
             send_must (MustNewConstMetric (NodeFirstAvailableBlock c) (float64 block)
               [identity c])] s)"

definition collectBalances :: "SolanaCollector \<Rightarrow> Helpers \<Rightarrow> Run \<Rightarrow> Run" where
  "collectBalances c h s =
     (case FetchBalances h (balanceAddresses c) of
        Inl err \<Rightarrow>
          steps
            [invoke CallFetchBalances,
             logger_Errorf ''failed to get balances: %v'' err,
             send (NewInvalidMetric (AccountBalances c) err)] s
      | Inr balances \<Rightarrow>
          steps
            [invoke CallFetchBalances,
             fold (\<lambda>(address, balance).
                 send_must (MustNewConstMetric (AccountBalances c) balance [address]))
               balances] s)"

text \<open>
  \<^verbatim>\<open>collectHealth\<close>. The locals \<^verbatim>\<open>isHealthy\<close> and \<^verbatim>\<open>numSlotsBehind\<close> start at 1 and 0.
  \<^verbatim>\<open>errorData\<close> is declared with its zero value and passed to the decoder by value, so the
  caller's \<^verbatim>\<open>errorData\<close> is the same struct after the call as before it.
\<close>

definition sendHealth :: "SolanaCollector \<Rightarrow> int \<Rightarrow> int \<Rightarrow> Run \<Rightarrow> Run" where
  "sendHealth c isHealthy numSlotsBehind s =
     steps
       [send_must (MustNewConstMetric (NodeIsHealthy c) (float64 isHealthy) [identity c]),
        send_must (MustNewConstMetric (NodeNumSlotsBehind c) (float64 numSlotsBehind)
          [identity c])] s"

definition collectHealth :: "SolanaCollector \<Rightarrow> Helpers \<Rightarrow> Run \<Rightarrow> Run" where
  "collectHealth c h s =
     (let isHealthy = 1; numSlotsBehind = 0; s1 = invoke CallGetHealth s in
      case GetHealth (rpcClient c) of
        Inr _ \<Rightarrow> sendHealth c isHealthy numSlotsBehind s1
      | Inl err \<Rightarrow>
          (case errors_As err of
             Some rpcError \<Rightarrow>
               (let errorData = \<lparr>NumSlotsBehind = 0\<rparr> in
                if Data rpcError = None then
                  steps
                    [logger_Errorf ''failed to get health: %v'' err,
                     send (NewInvalidMetric (NodeIsHealthy c) err),
                     send (NewInvalidMetric (NodeNumSlotsBehind c) err)] s1
                else
                  (let s2 = invoke CallUnpackRpcErrorData s1;
                       s3 = (case UnpackRpcErrorData h rpcError errorData of
                               Some err' \<Rightarrow>
                                 logger_Fatalf ''failed to unpack %s rpc error: %v''
                                   (Method rpcError) err' s2
                             | None \<Rightarrow> s2);
                       isHealthy = 0;
                       numSlotsBehind = NumSlotsBehind errorData
                   in sendHealth c isHealthy numSlotsBehind s3))
           | None \<Rightarrow>
               steps
                 [logger_Errorf ''failed to get health: %v'' err,
                  send (NewInvalidMetric (NodeIsHealthy c) err),
                  send (NewInvalidMetric (NodeNumSlotsBehind c) err)] s1))"

text \<open>
  \<^verbatim>\<open>Collect\<close>: the six sub-collections, one after the other, on the same channel. The
  per-scrape context and its deferred \<^verbatim>\<open>cancel\<close> send nothing and are left out. The
  name carries a suffix because \<open>Collect\<close> is the set comprehension of HOL.
\<close>

definition Collect_scrape :: "SolanaCollector \<Rightarrow> Helpers \<Rightarrow> Run \<Rightarrow> Run" where
  "Collect_scrape c h s =
     steps
       [collectVoteAccounts c,
        collectVersion c,
        collectBalances c h,
        collectHealth c h,
        collectMinimumLedgerSlot c,
        collectFirstAvailableBlock c] s"

subsection \<open>Reading an observation\<close>

fun value_of :: "Metric \<Rightarrow> real" where
  "value_of (ConstMetric _ v _) = v"
| "value_of (InvalidMetric _ _) = 0"

text \<open>The five families fed by the vote-accounts query.\<close>

definition vote_account_families :: "string list" where
  "vote_account_families =
     [''solana_validator_active'', ''solana_validator_active_stake'',
      ''solana_validator_last_vote'', ''solana_validator_root_slot'',
      ''solana_validator_delinquent'']"

text \<open>The observations of all families other than the five vote-account families.\<close>

definition other_families :: "Metric list \<Rightarrow> Metric list" where
  "other_families ms = filter (\<lambda>m. Name (desc_of m) \<notin> set vote_account_families) ms"

subsection \<open>The payload decoder\<close>

text \<open>
  Modelled from the spec: the decoding of a secondary payload into
  \<open>{numSlotsBehind: integer}\<close> is done in package \<^verbatim>\<open>rpc\<close>, which is declared in another
  file. A payload decodes when it is an object whose member \<open>numSlotsBehind\<close> is an integer.
\<close>

definition decodeNumSlotsBehind :: "json \<Rightarrow> int option" where
  "decodeNumSlotsBehind d =
     (case d of
        JObj members \<Rightarrow>
          (case map_of members ''numSlotsBehind'' of Some (JNum n) \<Rightarrow> Some n | _ \<Rightarrow> None)
      | _ \<Rightarrow> None)"

text \<open>
  Modelled from the spec: \<^verbatim>\<open>rpc.UnpackRpcErrorData\<close> is declared in another file. It
  decodes the secondary payload of a structured RPC error and returns an error when the
  payload cannot be decoded. The decoded value goes into the callee's copy \<open>formatted\<close>;
  what the caller receives is the returned error.
\<close>

definition UnpackRpcErrorData_spec :: "RPCError \<Rightarrow> NodeUnhealthyErrorData \<Rightarrow> go_error option" where
  "UnpackRpcErrorData_spec rpcErr formatted =
     (case Data rpcErr of
        None \<Rightarrow> None
      | Some d \<Rightarrow>
          (case decodeNumSlotsBehind d of
             None \<Rightarrow> Some (ErrorString ''failed to unmarshal rpc-error data'')
           | Some n \<Rightarrow> None))"

section \<open>Example inputs\<close>

text \<open>
  An upstream node with one current and one delinquent validator, a vote-accounts answer
  that lists the same validator in both partitions, and a collector configured with two
  overlapping address lists.
\<close>

definition demo_voteAccounts :: VoteAccounts where
  "demo_voteAccounts =
     \<lparr>Current = [\<lparr>VotePubkey = ''V1'', NodePubkey = ''N1'', ActivatedStake = 100,
                   LastVote = 50, RootSlot = 40\<rparr>],
      Delinquent = [\<lparr>VotePubkey = ''V2'', NodePubkey = ''N2'', ActivatedStake = 7,
                      LastVote = 30, RootSlot = 20\<rparr>]\<rparr>"

definition overlap_voteAccounts :: VoteAccounts where
  "overlap_voteAccounts =
     \<lparr>Current = [\<lparr>VotePubkey = ''V1'', NodePubkey = ''N1'', ActivatedStake = 100,
                   LastVote = 50, RootSlot = 40\<rparr>],
      Delinquent = [\<lparr>VotePubkey = ''V1'', NodePubkey = ''N1'', ActivatedStake = 100,
                      LastVote = 50, RootSlot = 40\<rparr>]\<rparr>"

definition demo_provider :: Provider where
  "demo_provider =
     \<lparr>GetVoteAccounts = (\<lambda>_. Inr demo_voteAccounts),
      GetVersion = Inr ''1.18.0'',
      GetHealth = Inr ''ok'',
      GetMinimumLedgerSlot = Inr 10,
      GetFirstAvailableBlock = Inr 5\<rparr>"

definition demo_helpers :: Helpers where
  "demo_helpers =
     \<lparr>FetchBalances = (\<lambda>addresses. Inr (map (\<lambda>a. (a, 1)) addresses)),
      UnpackRpcErrorData = UnpackRpcErrorData_spec\<rparr>"

definition demo_collector :: "Provider \<Rightarrow> SolanaCollector" where
  "demo_collector p = NewSolanaCollector p 0 [''A'', ''B''] [''B'', ''C''] [] ''ID''"

text \<open>
  Upstream nodes that differ from the example node in one answer: a failing vote-accounts
  query, and health queries failing with a transport error, with a structured error
  without payload, with the payload \<open>{numSlotsBehind: 7}\<close>, and with a payload that is not
  an object.
\<close>

definition vote_failure_provider :: Provider where
  "vote_failure_provider =
     demo_provider\<lparr>GetVoteAccounts := \<lambda>_. Inl (ErrorString ''connection refused'')\<rparr>"

definition transport_failure_provider :: Provider where
  "transport_failure_provider = demo_provider\<lparr>GetHealth := Inl (ErrorString ''timeout'')\<rparr>"

definition no_payload_provider :: Provider where
  "no_payload_provider =
     demo_provider\<lparr>GetHealth :=
       Inl (Wrapped ''getHealth'' (RpcErr \<lparr>Method = ''getHealth'', Data = None\<rparr>))\<rparr>"

definition unhealthy_provider :: Provider where
  "unhealthy_provider =
     demo_provider\<lparr>GetHealth :=
       Inl (RpcErr \<lparr>Method = ''getHealth'',
                      Data = Some (JObj [(''numSlotsBehind'', JNum 7)])\<rparr>)\<rparr>"

definition bad_payload_provider :: Provider where
  "bad_payload_provider =
     demo_provider\<lparr>GetHealth :=
       Inl (RpcErr \<lparr>Method = ''getHealth'', Data = Some (JStr ''behind'')\<rparr>)\<rparr>"

text \<open>An upstream node and helpers for which every query of the scrape fails.\<close>

definition all_failing_provider :: Provider where
  "all_failing_provider =
     \<lparr>GetVoteAccounts = (\<lambda>_. Inl (ErrorString ''e1'')),
      GetVersion = Inl (ErrorString ''e2''),
      GetHealth = Inl (ErrorString ''e4''),
      GetMinimumLedgerSlot = Inl (ErrorString ''e5''),
      GetFirstAvailableBlock = Inl (ErrorString ''e6'')\<rparr>"

definition failing_helpers :: Helpers where
  "failing_helpers =
     \<lparr>FetchBalances = (\<lambda>_. Inl (ErrorString ''e3'')),
      UnpackRpcErrorData = UnpackRpcErrorData_spec\<rparr>"

text \<open>An upstream node whose only validator has an activated stake of \<open>2^53 + 1\<close> lamports.\<close>

definition big_stake_voteAccounts :: VoteAccounts where
  "big_stake_voteAccounts =
     \<lparr>Current = [\<lparr>VotePubkey = ''V1'', NodePubkey = ''N1'',
                   ActivatedStake = 9007199254740993, LastVote = 50, RootSlot = 40\<rparr>],
      Delinquent = []\<rparr>"

definition big_stake_provider :: Provider where
  "big_stake_provider = demo_provider\<lparr>GetVoteAccounts := \<lambda>_. Inr big_stake_voteAccounts\<rparr>"

section \<open>Auxiliary notions\<close>

text \<open>
  \<open>app s t\<close> is the state reached when the effects recorded in \<open>t\<close> follow those of \<open>s\<close>.
  An operation is \<open>framed\<close> when, on a running state, it appends what it does from the
  empty state, and leaves a state that is not running untouched.
\<close>

definition app :: "Run \<Rightarrow> Run \<Rightarrow> Run" where
  "app s t = \<lparr>ch = ch s @ ch t, logged = logged s @ logged t, calls = calls s @ calls t,
             status = status t\<rparr>"

definition framed :: "(Run \<Rightarrow> Run) \<Rightarrow> bool" where
  "framed f \<longleftrightarrow> (\<forall>s. f s = (if status s = Running then app s (f start) else s))"

text \<open>The names and label counts of the eleven descriptors that \<open>NewSolanaCollector\<close> builds.\<close>

definition descs_ok :: "SolanaCollector \<Rightarrow> bool" where
  "descs_ok c \<longleftrightarrow>
     Name (ValidatorActive c) = ''solana_validator_active'' \<and>
     Name (ValidatorActiveStake c) = ''solana_validator_active_stake'' \<and>
     Name (ValidatorLastVote c) = ''solana_validator_last_vote'' \<and>
     Name (ValidatorRootSlot c) = ''solana_validator_root_slot'' \<and>
     Name (ValidatorDelinquent c) = ''solana_validator_delinquent'' \<and>
     Name (AccountBalances c) = ''solana_account_balance'' \<and>
     Name (NodeVersion c) = ''solana_node_version'' \<and>
     Name (NodeIsHealthy c) = ''solana_node_is_healthy'' \<and>
     Name (NodeNumSlotsBehind c) = ''solana_node_num_slots_behind'' \<and>
     Name (NodeMinimumLedgerSlot c) = ''solana_node_minimum_ledger_slot'' \<and>
     Name (NodeFirstAvailableBlock c) = ''solana_node_first_available_block'' \<and>
     length (VariableLabels (ValidatorActive c)) = 1 \<and>
     length (VariableLabels (ValidatorActiveStake c)) = 2 \<and>
     length (VariableLabels (ValidatorLastVote c)) = 2 \<and>
     length (VariableLabels (ValidatorRootSlot c)) = 2 \<and>
     length (VariableLabels (ValidatorDelinquent c)) = 2 \<and>
     length (VariableLabels (AccountBalances c)) = 1 \<and>
     length (VariableLabels (NodeVersion c)) = 1 \<and>
     length (VariableLabels (NodeIsHealthy c)) = 1 \<and>
     length (VariableLabels (NodeNumSlotsBehind c)) = 1 \<and>
     length (VariableLabels (NodeMinimumLedgerSlot c)) = 1 \<and>
     length (VariableLabels (NodeFirstAvailableBlock c)) = 1"

text \<open>The three per-validator gauges sent by one iteration of the first loop.\<close>

definition validator_gauges :: "SolanaCollector \<Rightarrow> VoteAccount \<Rightarrow> Metric list" where
  "validator_gauges c a =
     [ConstMetric (ValidatorActiveStake c) (float64 (ActivatedStake a)) [VotePubkey a, NodePubkey a],
      ConstMetric (ValidatorLastVote c) (float64 (LastVote a)) [VotePubkey a, NodePubkey a],
      ConstMetric (ValidatorRootSlot c) (float64 (RootSlot a)) [VotePubkey a, NodePubkey a]]"

section \<open>Conversion to float64\<close>

declare bit_length.simps [simp del]

lemma bit_length_le: "n < 2 ^ k \<Longrightarrow> bit_length n \<le> k"
proof (induction k arbitrary: n)
  case 0
  then show ?case by (simp add: bit_length.simps)
next
  case (Suc k)
  show ?case
  proof (cases "n = 0")
    case True
    then show ?thesis by (simp add: bit_length.simps)
  next
    case False
    from Suc.prems have "n div 2 < 2 ^ k" by simp
    then have "bit_length (n div 2) \<le> k" by (rule Suc.IH)
    with False show ?thesis by (subst bit_length.simps) simp
  qed
qed

lemma bit_length_eq: "2 ^ k \<le> n \<Longrightarrow> n < 2 ^ Suc k \<Longrightarrow> bit_length n = Suc k"
proof (induction k arbitrary: n)
  case 0
  then have "n = 1" by simp
  then show ?case by (simp add: bit_length.simps)
next
  case (Suc k)
  from Suc.prems have n0: "n \<noteq> 0" by auto
  from Suc.prems have "2 ^ k \<le> n div 2" "n div 2 < 2 ^ Suc k" by simp_all
  then have "bit_length (n div 2) = Suc k" by (rule Suc.IH)
  with n0 show ?case by (subst bit_length.simps) simp
qed

lemma round_to_float64_small: "\<bar>n\<bar> < 2 ^ 53 \<Longrightarrow> round_to_float64 n = n"
proof -
  assume a: "\<bar>n\<bar> < 2 ^ 53"
  then have "nat \<bar>n\<bar> < 2 ^ 53" by simp
  then have "bit_length (nat \<bar>n\<bar>) \<le> 53" by (rule bit_length_le)
  then have e: "bit_length (nat \<bar>n\<bar>) - 53 = 0" by simp
  show ?thesis unfolding round_to_float64_def Let_def e by (simp add: mult_sgn_abs)
qed

lemma bit_length_2_53: "bit_length 9007199254740992 = 54"
proof -
  have "bit_length 9007199254740992 = Suc 53" by (rule bit_length_eq) simp_all
  then show ?thesis by simp
qed

lemma round_to_float64_2_53:
  "round_to_float64 9007199254740992 = 9007199254740992"
  "round_to_float64 (- 9007199254740992) = - 9007199254740992"
  by (simp_all add: round_to_float64_def Let_def bit_length_2_53)

lemma round_to_float64_exact: "\<bar>n\<bar> \<le> 2 ^ 53 \<Longrightarrow> round_to_float64 n = n"
proof -
  assume "\<bar>n\<bar> \<le> 2 ^ 53"
  then consider "\<bar>n\<bar> < 2 ^ 53" | "n = 9007199254740992" | "n = - 9007199254740992"
    by fastforce
  then show ?thesis
    by cases (simp_all add: round_to_float64_small round_to_float64_2_53)
qed

lemma float64_exact: "\<bar>n\<bar> \<le> 2 ^ 53 \<Longrightarrow> float64 n = real_of_int n"
  by (simp add: float64_def round_to_float64_exact)

lemma float64_0: "float64 0 = 0"
  by (simp add: float64_exact)

lemma float64_1: "float64 1 = 1"
  by (simp add: float64_exact)

lemma bit_length_2_53_plus_1: "bit_length 9007199254740993 = 54"
proof -
  have "bit_length 9007199254740993 = Suc 53" by (rule bit_length_eq) simp_all
  then show ?thesis by simp
qed

lemma float64_2_53_plus_1: "float64 9007199254740993 = 9007199254740992"
  by (simp add: float64_def round_to_float64_def Let_def bit_length_2_53_plus_1)

section \<open>The address-set builder is a set union\<close>

lemma set_fold_add_unique: "set (fold add_unique items acc) = set acc \<union> set items"
  by (induction items arbitrary: acc) (auto simp: add_unique_def)

lemma distinct_fold_add_unique: "distinct acc \<Longrightarrow> distinct (fold add_unique items acc)"
  by (induction items arbitrary: acc) (auto simp: add_unique_def)

lemma set_fold_fold_add_unique:
  "set (fold (\<lambda>items acc. fold add_unique items acc) args acc) = set acc \<union> set (concat args)"
  by (induction args arbitrary: acc) (auto simp: set_fold_add_unique)

lemma distinct_fold_fold_add_unique:
  "distinct acc \<Longrightarrow> distinct (fold (\<lambda>items acc. fold add_unique items acc) args acc)"
  by (induction args arbitrary: acc) (auto simp: distinct_fold_add_unique)

lemma set_CombineUnique: "set (CombineUnique args) = set (concat args)"
  by (simp add: CombineUnique_def set_fold_fold_add_unique)

lemma distinct_CombineUnique: "distinct (CombineUnique args)"
  by (simp add: CombineUnique_def distinct_fold_fold_add_unique)

text \<open>
  Claim C8. The address-set builder yields the deduplicated union of its input lists: the
  elements of the result are exactly the elements of the inputs, none occurs twice, two
  inputs with the same elements (in any order, with any repetition, split over the lists in
  any way) give the same set and the same number of addresses, inputs that are all empty give
  the empty result, and the lists [A,B], [B,C], [] give the three addresses A, B, C.
\<close>

theorem CombineUnique_set_union:
  "set (CombineUnique args) = (\<Union>xs\<in>set args. set xs)
   \<and> distinct (CombineUnique args)
   \<and> (set (concat args) = set (concat args') \<longrightarrow>
        set (CombineUnique args) = set (CombineUnique args')
        \<and> length (CombineUnique args) = length (CombineUnique args'))
   \<and> ((\<forall>xs\<in>set args. xs = []) \<longrightarrow> CombineUnique args = [])
   \<and> set (CombineUnique [[''A'', ''B''], [''B'', ''C''], []]) = {''A'', ''B'', ''C''}
   \<and> length (CombineUnique [[''A'', ''B''], [''B'', ''C''], []]) = 3"
proof (intro conjI impI)
  show "set (CombineUnique args) = (\<Union>xs\<in>set args. set xs)"
    by (simp add: set_CombineUnique)
  show "distinct (CombineUnique args)" by (rule distinct_CombineUnique)
  show "CombineUnique args = []" if "\<forall>xs\<in>set args. xs = []"
  proof -
    from that have "set (CombineUnique args) = {}" by (simp add: set_CombineUnique)
    then show ?thesis by simp
  qed
  show "set (CombineUnique [[''A'', ''B''], [''B'', ''C''], []]) = {''A'', ''B'', ''C''}"
    by (auto simp: set_CombineUnique)
  show "length (CombineUnique [[''A'', ''B''], [''B'', ''C''], []]) = 3"
    by (simp add: CombineUnique_def add_unique_def)
next
  assume eq: "set (concat args) = set (concat args')"
  then show s: "set (CombineUnique args) = set (CombineUnique args')"
    by (simp add: set_CombineUnique)
  have "length (CombineUnique args) = card (set (CombineUnique args))"
    by (simp add: distinct_card distinct_CombineUnique)
  also have "\<dots> = card (set (CombineUnique args'))" using s by simp
  also have "\<dots> = length (CombineUnique args')"
    by (simp add: distinct_card distinct_CombineUnique)
  finally show "length (CombineUnique args) = length (CombineUnique args')" .
qed


theorem CombineUnique_set_union_witness:
  "set (concat [[''B'', ''A'', ''B''], [''C'']]) = set (concat [[''C'', ''B''], [], [''A'', ''C'']])
   \<and> set (CombineUnique [[''B'', ''A'', ''B''], [''C'']]) =
       set (CombineUnique [[''C'', ''B''], [], [''A'', ''C'']])
   \<and> length (CombineUnique [[''B'', ''A'', ''B''], [''C'']]) =
       length (CombineUnique [[''C'', ''B''], [], [''A'', ''C'']])
   \<and> list_all (\<lambda>xs. xs = []) [[], [] :: string list]
   \<and> CombineUnique [[], []] = []"
proof -
  have h: "set (concat [[''B'', ''A'', ''B''], [''C'']]) =
      set (concat [[''C'', ''B''], [], [''A'', ''C'']])"
    by (simp add: insert_commute)
  have e: "\<forall>xs\<in>set [[], [] :: string list]. xs = []" by simp
  have e': "list_all (\<lambda>xs. xs = []) [[], [] :: string list]" by simp
  note t1 = CombineUnique_set_union [of "[[''B'', ''A'', ''B''], [''C'']]"
        "[[''C'', ''B''], [], [''A'', ''C'']]"]
  note t2 = CombineUnique_set_union [of "[[], []]" "[]"]
  from t1 have "set (concat [[''B'', ''A'', ''B''], [''C'']]) =
      set (concat [[''C'', ''B''], [], [''A'', ''C'']]) \<longrightarrow>
      set (CombineUnique [[''B'', ''A'', ''B''], [''C'']]) =
       set (CombineUnique [[''C'', ''B''], [], [''A'', ''C'']])
      \<and> length (CombineUnique [[''B'', ''A'', ''B''], [''C'']]) =
       length (CombineUnique [[''C'', ''B''], [], [''A'', ''C'']])"
    by (elim conjE)
  with h have a: "set (CombineUnique [[''B'', ''A'', ''B''], [''C'']]) =
       set (CombineUnique [[''C'', ''B''], [], [''A'', ''C'']])
      \<and> length (CombineUnique [[''B'', ''A'', ''B''], [''C'']]) =
       length (CombineUnique [[''C'', ''B''], [], [''A'', ''C'']])"
    by (rule rev_mp)
  from t2 have "(\<forall>xs\<in>set [[], [] :: string list]. xs = []) \<longrightarrow> CombineUnique [[], []] = []"
    by (elim conjE)
  with e have b: "CombineUnique [[], []] = []" by (rule rev_mp)
  from h a e' b show ?thesis by (intro conjI) (elim conjE; assumption)+
qed

section \<open>Every operation only appends to the effects\<close>

lemma app_start [simp]: "app s start = s\<lparr>status := Running\<rparr>" "app start t = t"
  by (simp_all add: app_def start_def)

lemma app_assoc: "app (app s t) u = app s (app t u)"
  by (simp add: app_def)

lemma app_sel [simp]:
  "ch (app s t) = ch s @ ch t" "logged (app s t) = logged s @ logged t"
  "calls (app s t) = calls s @ calls t" "status (app s t) = status t"
  by (simp_all add: app_def)

lemma framed_invoke: "framed (invoke k)"
  by (simp add: framed_def invoke_def app_def start_def)

lemma framed_send: "framed (send m)"
  by (simp add: framed_def send_def app_def start_def)

lemma framed_send_must: "framed (send_must mo)"
  by (cases mo) (simp_all add: framed_def send_must_def send_def app_def start_def)

lemma framed_Errorf: "framed (logger_Errorf f e)"
  by (simp add: framed_def logger_Errorf_def app_def start_def)

lemma framed_Fatalf: "framed (logger_Fatalf f m e)"
  by (simp add: framed_def logger_Fatalf_def app_def start_def)

lemma framed_id: "framed (\<lambda>s. s)"
  by (simp add: framed_def app_def start_def)

lemma framed_halted: "framed f \<Longrightarrow> status s \<noteq> Running \<Longrightarrow> f s = s"
  by (simp add: framed_def)

lemma framed_running: "framed f \<Longrightarrow> status s = Running \<Longrightarrow> f s = app s (f start)"
  by (simp add: framed_def)

lemma framed_comp:
  assumes f: "framed f" and g: "framed g"
  shows "framed (\<lambda>s. g (f s))"
  unfolding framed_def
proof (intro allI)
  fix s
  show "g (f s) = (if status s = Running then app s (g (f start)) else s)"
  proof (cases "status s = Running")
    case False
    then show ?thesis using f g by (simp add: framed_halted)
  next
    case True
    then have fs: "f s = app s (f start)" using f by (simp add: framed_running)
    show ?thesis
    proof (cases "status (f start) = Running")
      case True
      then have "g (f start) = app (f start) (g start)" "g (f s) = app (f s) (g start)"
        using g fs by (simp_all add: framed_running)
      then show ?thesis using \<open>status s = Running\<close> fs by (simp add: app_assoc)
    next
      case False
      then have "g (f start) = f start" "g (f s) = f s"
        using g fs by (simp_all add: framed_halted)
      then show ?thesis using \<open>status s = Running\<close> fs by simp
    qed
  qed
qed

lemma framed_fold: "(\<And>x. framed (body x)) \<Longrightarrow> framed (fold body xs)"
proof (induction xs rule: rev_induct)
  case Nil
  then show ?case by (simp add: framed_id)
next
  case (snoc x xs)
  have "framed (\<lambda>s. body x (fold body xs s))"
    by (rule framed_comp) (use snoc in auto)
  then show ?case by (simp add: comp_def)
qed

lemma framed_steps_Nil: "framed (steps [])"
proof -
  have "steps [] = (\<lambda>s. s)" by (rule ext) (simp add: steps_def)
  then show ?thesis by (simp only: framed_id)
qed

lemma framed_steps_Cons: "framed f \<Longrightarrow> framed (steps fs) \<Longrightarrow> framed (steps (f # fs))"
proof -
  assume "framed f" "framed (steps fs)"
  then have "framed (\<lambda>s. steps fs (f s))" by (rule framed_comp)
  moreover have "steps (f # fs) = (\<lambda>s. steps fs (f s))" by (rule ext) (simp add: steps_def)
  ultimately show ?thesis by simp
qed

lemma framed_Let: "framed (f a) \<Longrightarrow> framed (Let a f)"
  by simp

lemma framed_case_prod: "(\<And>a b. framed (f a b)) \<Longrightarrow> framed (case_prod f x)"
  by (cases x) simp

lemma framed_case_sum:
  "(\<And>e. framed (f e)) \<Longrightarrow> (\<And>v. framed (g v)) \<Longrightarrow>
   framed (\<lambda>s. case x of Inl e \<Rightarrow> f e s | Inr v \<Rightarrow> g v s)"
  by (cases x) simp_all

lemmas framed_intros = framed_steps_Nil framed_steps_Cons framed_fold framed_Let
  framed_case_prod framed_case_sum framed_invoke framed_send framed_send_must
  framed_Errorf framed_Fatalf

lemma framed_collectVoteAccounts: "framed (collectVoteAccounts c)"
  unfolding collectVoteAccounts_def [abs_def] by (intro framed_intros)

lemma framed_collectVersion: "framed (collectVersion c)"
  unfolding collectVersion_def [abs_def] by (intro framed_intros)

lemma framed_collectMinimumLedgerSlot: "framed (collectMinimumLedgerSlot c)"
  unfolding collectMinimumLedgerSlot_def [abs_def] by (intro framed_intros)

lemma framed_collectFirstAvailableBlock: "framed (collectFirstAvailableBlock c)"
  unfolding collectFirstAvailableBlock_def [abs_def] by (intro framed_intros)

lemma framed_collectBalances: "framed (collectBalances c h)"
  unfolding collectBalances_def [abs_def] by (intro framed_intros)

lemma framed_sendHealth: "framed (sendHealth c a b)"
  unfolding sendHealth_def [abs_def] by (intro framed_intros)

lemma framed_collectHealth: "framed (collectHealth c h)"
proof (cases "GetHealth (rpcClient c)")
  case (Inr v)
  then have "collectHealth c h = (\<lambda>s. sendHealth c 1 0 (invoke CallGetHealth s))"
    by (intro ext) (simp add: collectHealth_def Let_def)
  then show ?thesis
    by (simp only:) (rule framed_comp [OF framed_invoke framed_sendHealth])
next
  case (Inl err)
  let ?sent = "steps [logger_Errorf ''failed to get health: %v'' err,
                     send (NewInvalidMetric (NodeIsHealthy c) err),
                     send (NewInvalidMetric (NodeNumSlotsBehind c) err)]"
  have "framed ?sent" by (intro framed_intros)
  then have sent: "framed (\<lambda>s. ?sent (invoke CallGetHealth s))"
    by (rule framed_comp [OF framed_invoke])
  show ?thesis
  proof (cases "errors_As err")
    case None
    then have "collectHealth c h = (\<lambda>s. ?sent (invoke CallGetHealth s))"
      using Inl by (intro ext) (simp add: collectHealth_def Let_def)
    then show ?thesis using sent by (simp only:)
  next
    case (Some rpcError)
    show ?thesis
    proof (cases "Data rpcError")
      case None
      then have "collectHealth c h = (\<lambda>s. ?sent (invoke CallGetHealth s))"
        using Inl Some by (intro ext) (simp add: collectHealth_def Let_def)
      then show ?thesis using sent by (simp only:)
    next
      case payload: (Some d)
      show ?thesis
      proof (cases "UnpackRpcErrorData h rpcError \<lparr>NumSlotsBehind = 0\<rparr>")
        case None
        then have "collectHealth c h =
            (\<lambda>s. sendHealth c 0 0 (invoke CallUnpackRpcErrorData (invoke CallGetHealth s)))"
          using Inl Some payload by (intro ext) (simp add: collectHealth_def Let_def)
        then show ?thesis
          by (simp only:)
            (rule framed_comp [OF framed_comp [OF framed_invoke framed_invoke] framed_sendHealth])
      next
        case (Some err')
        then have "collectHealth c h =
            (\<lambda>s. sendHealth c 0 0
               (logger_Fatalf ''failed to unpack %s rpc error: %v'' (Method rpcError) err'
                 (invoke CallUnpackRpcErrorData (invoke CallGetHealth s))))"
          using Inl \<open>errors_As err = Some rpcError\<close> payload
          by (intro ext) (simp add: collectHealth_def Let_def)
        then show ?thesis
          by (simp only:)
            (rule framed_comp [OF framed_comp [OF framed_comp [OF framed_invoke framed_invoke]
               framed_Fatalf] framed_sendHealth])
      qed
    qed
  qed
qed

lemma descs_ok_New: "descs_ok (NewSolanaCollector p pace ba nk vk ident)"
  by (simp add: descs_ok_def NewSolanaCollector_def NewGaugeDesc_def)

lemma New_sel:
  "rpcClient (NewSolanaCollector p pace ba nk vk ident) = p"
  "identity (NewSolanaCollector p pace ba nk vk ident) = ident"
  "balanceAddresses (NewSolanaCollector p pace ba nk vk ident) = CombineUnique [ba, nk, vk]"
  by (simp_all add: NewSolanaCollector_def)

lemma steps_Nil: "steps [] s = s"
  by (simp add: steps_def)

lemma steps_Cons: "steps (f # fs) s = steps fs (f s)"
  by (simp add: steps_def)

lemma send_must_ok:
  "status s = Running \<Longrightarrow> length ls = length (VariableLabels d) \<Longrightarrow>
   send_must (MustNewConstMetric d v ls) s = s\<lparr>ch := ch s @ [ConstMetric d v ls]\<rparr>"
  by (simp add: send_must_def MustNewConstMetric_def send_def)

lemma fold_send_must:
  assumes "\<And>x. length (ls x) = length (VariableLabels d)"
  shows "status s = Running \<Longrightarrow>
     fold (\<lambda>x. send_must (MustNewConstMetric d (v x) (ls x))) xs s =
       s\<lparr>ch := ch s @ map (\<lambda>x. ConstMetric d (v x) (ls x)) xs\<rparr>"
proof (induction xs arbitrary: s)
  case Nil
  then show ?case by simp
next
  case (Cons x xs)
  let ?s = "s\<lparr>ch := ch s @ [ConstMetric d (v x) (ls x)]\<rparr>"
  have "send_must (MustNewConstMetric d (v x) (ls x)) s = ?s"
    using Cons.prems assms by (simp add: send_must_ok)
  moreover have "status ?s = Running" using Cons.prems by simp
  ultimately show ?case using Cons.IH [of ?s] by simp
qed

lemma fold_validator_gauges:
  assumes ok: "descs_ok c"
  shows "status s = Running \<Longrightarrow>
     fold (\<lambda>account.
         let accounts = [VotePubkey account, NodePubkey account] in
         steps
           [send_must (MustNewConstMetric (ValidatorActiveStake c)
              (float64 (ActivatedStake account)) accounts),
            send_must (MustNewConstMetric (ValidatorLastVote c)
              (float64 (LastVote account)) accounts),
            send_must (MustNewConstMetric (ValidatorRootSlot c)
              (float64 (RootSlot account)) accounts)]) xs s =
       s\<lparr>ch := ch s @ concat (map (validator_gauges c) xs)\<rparr>"
proof (induction xs arbitrary: s)
  case Nil
  then show ?case by simp
next
  case (Cons x xs)
  let ?s = "s\<lparr>ch := ch s @ validator_gauges c x\<rparr>"
  have "status ?s = Running" using Cons.prems by simp
  from Cons.IH [OF this] show ?case
    using Cons.prems ok
    by (simp add: Let_def steps_def send_must_ok descs_ok_def validator_gauges_def)
qed

lemma collectVoteAccounts_fail:
  assumes "GetVoteAccounts (rpcClient c) CommitmentConfirmed = Inl err"
  shows "collectVoteAccounts c start =
     \<lparr>ch = [InvalidMetric (ValidatorActive c) err,
             InvalidMetric (ValidatorActiveStake c) err,
             InvalidMetric (ValidatorLastVote c) err,
             InvalidMetric (ValidatorRootSlot c) err,
             InvalidMetric (ValidatorDelinquent c) err],
      logged = [ErrorEntry ''failed to get vote accounts: %v'' err],
      calls = [CallGetVoteAccounts],
      status = Running\<rparr>"
  using assms
  by (simp add: collectVoteAccounts_def steps_def invoke_def logger_Errorf_def send_def
      NewInvalidMetric_def start_def)

lemma collectVoteAccounts_ok:
  assumes ok: "descs_ok c"
    and va: "GetVoteAccounts (rpcClient c) CommitmentConfirmed = Inr va"
  shows "collectVoteAccounts c start =
     \<lparr>ch = [ConstMetric (ValidatorActive c) (float64_of_len (length (Delinquent va)))
               [StateDelinquent],
             ConstMetric (ValidatorActive c) (float64_of_len (length (Current va)))
               [StateCurrent]]
            @ concat (map (validator_gauges c) (Current va @ Delinquent va))
            @ map (\<lambda>a. ConstMetric (ValidatorDelinquent c) 0 [VotePubkey a, NodePubkey a])
                (Current va)
            @ map (\<lambda>a. ConstMetric (ValidatorDelinquent c) 1 [VotePubkey a, NodePubkey a])
                (Delinquent va),
      logged = [],
      calls = [CallGetVoteAccounts],
      status = Running\<rparr>"
proof -
  have ar: "length (VariableLabels (ValidatorActive c)) = 1"
    "length (VariableLabels (ValidatorDelinquent c)) = 2"
    using ok by (simp_all add: descs_ok_def)
  show ?thesis
    unfolding collectVoteAccounts_def va sum.case
    by (simp add: steps_Cons steps_Nil invoke_def start_def send_must_ok ar
        fold_validator_gauges [OF ok] fold_send_must del: fold_append)
qed

lemma collectVersion_fail:
  "GetVersion (rpcClient c) = Inl err \<Longrightarrow>
   collectVersion c start =
     \<lparr>ch = [InvalidMetric (NodeVersion c) err],
      logged = [ErrorEntry ''failed to get version: %v'' err],
      calls = [CallGetVersion], status = Running\<rparr>"
  by (simp add: collectVersion_def steps_def invoke_def logger_Errorf_def send_def
      NewInvalidMetric_def start_def)

lemma collectVersion_ok:
  "descs_ok c \<Longrightarrow> GetVersion (rpcClient c) = Inr version \<Longrightarrow>
   collectVersion c start =
     \<lparr>ch = [ConstMetric (NodeVersion c) 1 [version]],
      logged = [], calls = [CallGetVersion], status = Running\<rparr>"
  by (simp add: collectVersion_def steps_def invoke_def send_must_ok start_def descs_ok_def)

lemma collectMinimumLedgerSlot_fail:
  "GetMinimumLedgerSlot (rpcClient c) = Inl err \<Longrightarrow>
   collectMinimumLedgerSlot c start =
     \<lparr>ch = [InvalidMetric (NodeMinimumLedgerSlot c) err],
      logged = [ErrorEntry ''failed to get minimum lidger slot: %v'' err],
      calls = [CallGetMinimumLedgerSlot], status = Running\<rparr>"
  by (simp add: collectMinimumLedgerSlot_def steps_def invoke_def logger_Errorf_def send_def
      NewInvalidMetric_def start_def)

lemma collectMinimumLedgerSlot_ok:
  "descs_ok c \<Longrightarrow> GetMinimumLedgerSlot (rpcClient c) = Inr slot \<Longrightarrow>
   collectMinimumLedgerSlot c start =
     \<lparr>ch = [ConstMetric (NodeMinimumLedgerSlot c) (float64 slot) [identity c]],
      logged = [], calls = [CallGetMinimumLedgerSlot], status = Running\<rparr>"
  by (simp add: collectMinimumLedgerSlot_def steps_def invoke_def send_must_ok start_def
      descs_ok_def)

lemma collectFirstAvailableBlock_fail:
  "GetFirstAvailableBlock (rpcClient c) = Inl err \<Longrightarrow>
   collectFirstAvailableBlock c start =
     \<lparr>ch = [InvalidMetric (NodeFirstAvailableBlock c) err],
      logged = [ErrorEntry ''failed to get first available block: %v'' err],
      calls = [CallGetFirstAvailableBlock], status = Running\<rparr>"
  by (simp add: collectFirstAvailableBlock_def steps_def invoke_def logger_Errorf_def send_def
      NewInvalidMetric_def start_def)

lemma collectFirstAvailableBlock_ok:
  "descs_ok c \<Longrightarrow> GetFirstAvailableBlock (rpcClient c) = Inr block \<Longrightarrow>
   collectFirstAvailableBlock c start =
     \<lparr>ch = [ConstMetric (NodeFirstAvailableBlock c) (float64 block) [identity c]],
      logged = [], calls = [CallGetFirstAvailableBlock], status = Running\<rparr>"
  by (simp add: collectFirstAvailableBlock_def steps_def invoke_def send_must_ok start_def
      descs_ok_def)

lemma collectBalances_fail:
  "FetchBalances h (balanceAddresses c) = Inl err \<Longrightarrow>
   collectBalances c h start =
     \<lparr>ch = [InvalidMetric (AccountBalances c) err],
      logged = [ErrorEntry ''failed to get balances: %v'' err],
      calls = [CallFetchBalances], status = Running\<rparr>"
  by (simp add: collectBalances_def steps_def invoke_def logger_Errorf_def send_def
      NewInvalidMetric_def start_def)

lemma collectBalances_ok:
  assumes ok: "descs_ok c" and b: "FetchBalances h (balanceAddresses c) = Inr balances"
  shows "collectBalances c h start =
     \<lparr>ch = map (\<lambda>(address, balance). ConstMetric (AccountBalances c) balance [address])
             balances,
      logged = [], calls = [CallFetchBalances], status = Running\<rparr>"
proof -
  have ar: "\<And>x :: string \<times> real. length [fst x] = length (VariableLabels (AccountBalances c))"
    using ok by (simp add: descs_ok_def)
  have body: "(\<lambda>(address, balance).
        send_must (MustNewConstMetric (AccountBalances c) balance [address])) =
      (\<lambda>x. send_must (MustNewConstMetric (AccountBalances c) (snd x) [fst x]))"
    by (simp add: case_prod_unfold)
  show ?thesis
    unfolding collectBalances_def b sum.case body
    by (simp add: steps_Cons steps_Nil invoke_def start_def fold_send_must [OF ar]
        case_prod_unfold)
qed

lemma sendHealth_ok:
  "descs_ok c \<Longrightarrow> status s = Running \<Longrightarrow>
   sendHealth c a b s =
     s\<lparr>ch := ch s @ [ConstMetric (NodeIsHealthy c) (float64 a) [identity c],
                     ConstMetric (NodeNumSlotsBehind c) (float64 b) [identity c]]\<rparr>"
  by (simp add: sendHealth_def steps_def send_must_ok descs_ok_def)

lemma sendHealth_halted: "status s \<noteq> Running \<Longrightarrow> sendHealth c a b s = s"
  by (simp add: framed_halted [OF framed_sendHealth])

lemma collectHealth_ok:
  "descs_ok c \<Longrightarrow> GetHealth (rpcClient c) = Inr v \<Longrightarrow>
   collectHealth c h start =
     \<lparr>ch = [ConstMetric (NodeIsHealthy c) (float64 1) [identity c],
             ConstMetric (NodeNumSlotsBehind c) (float64 0) [identity c]],
      logged = [], calls = [CallGetHealth], status = Running\<rparr>"
  by (simp add: collectHealth_def Let_def sendHealth_ok invoke_def start_def)

lemma collectHealth_plain_error:
  "GetHealth (rpcClient c) = Inl err \<Longrightarrow> errors_As err = None \<Longrightarrow>
   collectHealth c h start =
     \<lparr>ch = [InvalidMetric (NodeIsHealthy c) err, InvalidMetric (NodeNumSlotsBehind c) err],
      logged = [ErrorEntry ''failed to get health: %v'' err],
      calls = [CallGetHealth], status = Running\<rparr>"
  by (simp add: collectHealth_def Let_def steps_def invoke_def logger_Errorf_def send_def
      NewInvalidMetric_def start_def)

lemma collectHealth_no_payload:
  "GetHealth (rpcClient c) = Inl err \<Longrightarrow> errors_As err = Some rpcError \<Longrightarrow>
   Data rpcError = None \<Longrightarrow>
   collectHealth c h start =
     \<lparr>ch = [InvalidMetric (NodeIsHealthy c) err, InvalidMetric (NodeNumSlotsBehind c) err],
      logged = [ErrorEntry ''failed to get health: %v'' err],
      calls = [CallGetHealth], status = Running\<rparr>"
  by (simp add: collectHealth_def Let_def steps_def invoke_def logger_Errorf_def send_def
      NewInvalidMetric_def start_def)

lemma collectHealth_unpacked:
  "descs_ok c \<Longrightarrow> GetHealth (rpcClient c) = Inl err \<Longrightarrow> errors_As err = Some rpcError \<Longrightarrow>
   Data rpcError = Some d \<Longrightarrow>
   UnpackRpcErrorData h rpcError \<lparr>NumSlotsBehind = 0\<rparr> = None \<Longrightarrow>
   collectHealth c h start =
     \<lparr>ch = [ConstMetric (NodeIsHealthy c) (float64 0) [identity c],
             ConstMetric (NodeNumSlotsBehind c) (float64 0) [identity c]],
      logged = [], calls = [CallGetHealth, CallUnpackRpcErrorData], status = Running\<rparr>"
  by (simp add: collectHealth_def Let_def sendHealth_ok invoke_def start_def)

lemma collectHealth_fatal:
  "GetHealth (rpcClient c) = Inl err \<Longrightarrow> errors_As err = Some rpcError \<Longrightarrow>
   Data rpcError = Some d \<Longrightarrow>
   UnpackRpcErrorData h rpcError \<lparr>NumSlotsBehind = 0\<rparr> = Some err' \<Longrightarrow>
   collectHealth c h start =
     \<lparr>ch = [],
      logged = [FatalEntry ''failed to unpack %s rpc error: %v'' (Method rpcError) err'],
      calls = [CallGetHealth, CallUnpackRpcErrorData], status = Exited\<rparr>"
  by (simp add: collectHealth_def Let_def sendHealth_halted invoke_def logger_Fatalf_def
      start_def)

lemma status_collectVoteAccounts:
  "descs_ok c \<Longrightarrow> status (collectVoteAccounts c start) = Running"
  by (cases "GetVoteAccounts (rpcClient c) CommitmentConfirmed")
    (simp_all add: collectVoteAccounts_fail collectVoteAccounts_ok)

lemma status_collectVersion: "descs_ok c \<Longrightarrow> status (collectVersion c start) = Running"
  by (cases "GetVersion (rpcClient c)") (simp_all add: collectVersion_fail collectVersion_ok)

lemma status_collectBalances: "descs_ok c \<Longrightarrow> status (collectBalances c h start) = Running"
  by (cases "FetchBalances h (balanceAddresses c)")
    (simp_all add: collectBalances_fail collectBalances_ok)

lemma status_collectMinimumLedgerSlot:
  "descs_ok c \<Longrightarrow> status (collectMinimumLedgerSlot c start) = Running"
  by (cases "GetMinimumLedgerSlot (rpcClient c)")
    (simp_all add: collectMinimumLedgerSlot_fail collectMinimumLedgerSlot_ok)

lemma status_collectFirstAvailableBlock:
  "descs_ok c \<Longrightarrow> status (collectFirstAvailableBlock c start) = Running"
  by (cases "GetFirstAvailableBlock (rpcClient c)")
    (simp_all add: collectFirstAvailableBlock_fail collectFirstAvailableBlock_ok)

lemma Collect_unfold:
  "Collect_scrape c h s =
     collectFirstAvailableBlock c (collectMinimumLedgerSlot c (collectHealth c h
       (collectBalances c h (collectVersion c (collectVoteAccounts c s)))))"
  by (simp add: Collect_scrape_def steps_def)

lemma Collect_app:
  assumes ok: "descs_ok c"
  shows "Collect_scrape c h start =
     app (collectVoteAccounts c start) (app (collectVersion c start)
       (app (collectBalances c h start)
         (if status (collectHealth c h start) = Running
          then app (collectHealth c h start) (app (collectMinimumLedgerSlot c start)
                 (collectFirstAvailableBlock c start))
          else collectHealth c h start)))"
proof -
  let ?VA = "collectVoteAccounts c start"
  let ?VER = "collectVersion c start"
  let ?BAL = "collectBalances c h start"
  let ?H = "collectHealth c h start"
  let ?MIN = "collectMinimumLedgerSlot c start"
  let ?FST = "collectFirstAvailableBlock c start"
  have e2: "collectVersion c ?VA = app ?VA ?VER"
    using ok by (simp add: framed_running [OF framed_collectVersion] status_collectVoteAccounts)
  have e3: "collectBalances c h (app ?VA ?VER) = app ?VA (app ?VER ?BAL)"
    using ok
    by (simp add: framed_running [OF framed_collectBalances] status_collectVersion app_assoc)
  have e4: "collectHealth c h (app ?VA (app ?VER ?BAL)) = app ?VA (app ?VER (app ?BAL ?H))"
    using ok
    by (simp add: framed_running [OF framed_collectHealth] status_collectBalances app_assoc)
  show ?thesis
  proof (cases "status ?H = Running")
    case True
    have e5: "collectMinimumLedgerSlot c (app ?VA (app ?VER (app ?BAL ?H))) =
        app ?VA (app ?VER (app ?BAL (app ?H ?MIN)))"
      using True by (simp add: framed_running [OF framed_collectMinimumLedgerSlot] app_assoc)
    have e6: "collectFirstAvailableBlock c (app ?VA (app ?VER (app ?BAL (app ?H ?MIN)))) =
        app ?VA (app ?VER (app ?BAL (app ?H (app ?MIN ?FST))))"
      using ok
      by (simp add: framed_running [OF framed_collectFirstAvailableBlock]
          status_collectMinimumLedgerSlot app_assoc)
    show ?thesis
      unfolding Collect_unfold e2 e3 e4 e5 e6 using True by simp
  next
    case False
    have e5: "collectMinimumLedgerSlot c (app ?VA (app ?VER (app ?BAL ?H))) =
        app ?VA (app ?VER (app ?BAL ?H))"
      using False by (simp add: framed_halted [OF framed_collectMinimumLedgerSlot])
    have e6: "collectFirstAvailableBlock c (app ?VA (app ?VER (app ?BAL ?H))) =
        app ?VA (app ?VER (app ?BAL ?H))"
      using False by (simp add: framed_halted [OF framed_collectFirstAvailableBlock])
    show ?thesis
      unfolding Collect_unfold e2 e3 e4 e5 e6 using False by simp
  qed
qed

section \<open>Metric families of a scrape\<close>

lemma family_Nil: "family n [] = []"
  by (simp add: family_def)

lemma family_append: "family n (xs @ ys) = family n xs @ family n ys"
  by (simp add: family_def)

lemma family_Cons:
  "family n (m # ms) = (if Name (desc_of m) = n then m # family n ms else family n ms)"
  by (simp add: family_def)

lemma family_none: "(\<And>m. m \<in> set ms \<Longrightarrow> Name (desc_of m) \<noteq> n) \<Longrightarrow> family n ms = []"
  by (induction ms) (simp_all add: family_def)

lemma family_all: "(\<And>m. m \<in> set ms \<Longrightarrow> Name (desc_of m) = n) \<Longrightarrow> family n ms = ms"
  by (induction ms) (simp_all add: family_def)

lemma family_map_all: "(\<And>x. Name (desc_of (f x)) = n) \<Longrightarrow> family n (map f xs) = map f xs"
  by (rule family_all) auto

lemma family_map_none: "(\<And>x. Name (desc_of (f x)) \<noteq> n) \<Longrightarrow> family n (map f xs) = []"
  by (rule family_none) auto

lemma family_concat_map:
  "(\<And>x. family n (f x) = [g x]) \<Longrightarrow> family n (concat (map f xs)) = map g xs"
  by (induction xs) (simp_all add: family_append family_Nil)

lemma family_concat_none:
  "(\<And>x. family n (f x) = []) \<Longrightarrow> family n (concat (map f xs)) = []"
  by (induction xs) (simp_all add: family_append family_Nil)

lemma names_collectVoteAccounts:
  assumes ok: "descs_ok c" and m: "m \<in> set (ch (collectVoteAccounts c start))"
  shows "Name (desc_of m) \<in> {''solana_validator_active'', ''solana_validator_active_stake'',
     ''solana_validator_last_vote'', ''solana_validator_root_slot'',
     ''solana_validator_delinquent''}"
proof (cases "GetVoteAccounts (rpcClient c) CommitmentConfirmed")
  case (Inl err)
  then show ?thesis
    using ok m unfolding collectVoteAccounts_fail [OF Inl] descs_ok_def by auto
next
  case (Inr va)
  show ?thesis
    using ok m unfolding collectVoteAccounts_ok [OF ok Inr] descs_ok_def
    by (auto simp: validator_gauges_def)
qed

lemma names_collectVersion:
  assumes ok: "descs_ok c" and m: "m \<in> set (ch (collectVersion c start))"
  shows "Name (desc_of m) = ''solana_node_version''"
  using ok m
  by (cases "GetVersion (rpcClient c)")
    (auto simp: collectVersion_fail collectVersion_ok descs_ok_def)

lemma names_collectBalances:
  assumes ok: "descs_ok c" and m: "m \<in> set (ch (collectBalances c h start))"
  shows "Name (desc_of m) = ''solana_account_balance''"
  using ok m
  by (cases "FetchBalances h (balanceAddresses c)")
    (auto simp: collectBalances_fail collectBalances_ok descs_ok_def)

lemma names_collectMinimumLedgerSlot:
  assumes ok: "descs_ok c" and m: "m \<in> set (ch (collectMinimumLedgerSlot c start))"
  shows "Name (desc_of m) = ''solana_node_minimum_ledger_slot''"
  using ok m
  by (cases "GetMinimumLedgerSlot (rpcClient c)")
    (auto simp: collectMinimumLedgerSlot_fail collectMinimumLedgerSlot_ok descs_ok_def)

lemma names_collectFirstAvailableBlock:
  assumes ok: "descs_ok c" and m: "m \<in> set (ch (collectFirstAvailableBlock c start))"
  shows "Name (desc_of m) = ''solana_node_first_available_block''"
  using ok m
  by (cases "GetFirstAvailableBlock (rpcClient c)")
    (auto simp: collectFirstAvailableBlock_fail collectFirstAvailableBlock_ok descs_ok_def)

text \<open>The five outcomes of the health sub-collection.\<close>

lemma collectHealth_cases:
  assumes ok: "descs_ok c"
  obtains
    (healthy) v where "GetHealth (rpcClient c) = Inr v"
      "collectHealth c h start =
         \<lparr>ch = [ConstMetric (NodeIsHealthy c) (float64 1) [identity c],
                 ConstMetric (NodeNumSlotsBehind c) (float64 0) [identity c]],
          logged = [], calls = [CallGetHealth], status = Running\<rparr>"
  | (sentinel) err where "GetHealth (rpcClient c) = Inl err"
      "errors_As err = None \<or> (\<exists>r. errors_As err = Some r \<and> Data r = None)"
      "collectHealth c h start =
         \<lparr>ch = [InvalidMetric (NodeIsHealthy c) err, InvalidMetric (NodeNumSlotsBehind c) err],
          logged = [ErrorEntry ''failed to get health: %v'' err],
          calls = [CallGetHealth], status = Running\<rparr>"
  | (unpacked) err r d where "GetHealth (rpcClient c) = Inl err" "errors_As err = Some r"
      "Data r = Some d" "UnpackRpcErrorData h r \<lparr>NumSlotsBehind = 0\<rparr> = None"
      "collectHealth c h start =
         \<lparr>ch = [ConstMetric (NodeIsHealthy c) (float64 0) [identity c],
                 ConstMetric (NodeNumSlotsBehind c) (float64 0) [identity c]],
          logged = [], calls = [CallGetHealth, CallUnpackRpcErrorData], status = Running\<rparr>"
  | (fatal) err r d err' where "GetHealth (rpcClient c) = Inl err" "errors_As err = Some r"
      "Data r = Some d" "UnpackRpcErrorData h r \<lparr>NumSlotsBehind = 0\<rparr> = Some err'"
      "collectHealth c h start =
         \<lparr>ch = [],
          logged = [FatalEntry ''failed to unpack %s rpc error: %v'' (Method r) err'],
          calls = [CallGetHealth, CallUnpackRpcErrorData], status = Exited\<rparr>"
proof (cases "GetHealth (rpcClient c)")
  case (Inr v)
  then show ?thesis using healthy collectHealth_ok [OF ok] by blast
next
  case (Inl err)
  show ?thesis
  proof (cases "errors_As err")
    case None
    then show ?thesis using sentinel Inl collectHealth_plain_error by blast
  next
    case (Some r)
    show ?thesis
    proof (cases "Data r")
      case None
      then show ?thesis using sentinel [OF Inl] Some collectHealth_no_payload [OF Inl Some] by blast
    next
      case d: (Some d)
      show ?thesis
      proof (cases "UnpackRpcErrorData h r \<lparr>NumSlotsBehind = 0\<rparr>")
        case None
        then show ?thesis using unpacked Inl Some d collectHealth_unpacked [OF ok] by blast
      next
        case e: (Some err')
        then show ?thesis using fatal Inl Some d collectHealth_fatal by blast
      qed
    qed
  qed
qed

lemma names_collectHealth:
  assumes ok: "descs_ok c" and m: "m \<in> set (ch (collectHealth c h start))"
  shows "Name (desc_of m) \<in> {''solana_node_is_healthy'', ''solana_node_num_slots_behind''}"
  using ok m
  by (cases rule: collectHealth_cases [OF ok, of h]) (auto simp: descs_ok_def)

lemma status_collectHealth:
  assumes ok: "descs_ok c"
  shows "status (collectHealth c h start) = Running \<or> status (collectHealth c h start) = Exited"
  by (cases rule: collectHealth_cases [OF ok, of h]) auto

lemma ch_Collect:
  assumes ok: "descs_ok c"
  shows "ch (Collect_scrape c h start) =
     ch (collectVoteAccounts c start) @ ch (collectVersion c start)
     @ ch (collectBalances c h start) @ ch (collectHealth c h start)
     @ (if status (collectHealth c h start) = Running
        then ch (collectMinimumLedgerSlot c start) @ ch (collectFirstAvailableBlock c start)
        else [])"
  by (simp add: Collect_app [OF ok])

lemma family_Collect_vote:
  assumes ok: "descs_ok c"
    and n: "n \<in> {''solana_validator_active'', ''solana_validator_active_stake'',
       ''solana_validator_last_vote'', ''solana_validator_root_slot'',
       ''solana_validator_delinquent''}"
  shows "family n (ch (Collect_scrape c h start)) = family n (ch (collectVoteAccounts c start))"
proof -
  have "family n (ch (collectVersion c start)) = []"
    using n names_collectVersion [OF ok] by (intro family_none) auto
  moreover have "family n (ch (collectBalances c h start)) = []"
    using n names_collectBalances [OF ok] by (intro family_none) auto
  moreover have "family n (ch (collectHealth c h start)) = []"
    using n names_collectHealth [OF ok] by (intro family_none) fastforce
  moreover have "family n (ch (collectMinimumLedgerSlot c start)) = []"
    using n names_collectMinimumLedgerSlot [OF ok] by (intro family_none) auto
  moreover have "family n (ch (collectFirstAvailableBlock c start)) = []"
    using n names_collectFirstAvailableBlock [OF ok] by (intro family_none) auto
  ultimately show ?thesis
    by (simp add: ch_Collect [OF ok] family_append family_Nil)
qed

lemma family_Collect_health:
  assumes ok: "descs_ok c"
    and n: "n \<in> {''solana_node_is_healthy'', ''solana_node_num_slots_behind''}"
  shows "family n (ch (Collect_scrape c h start)) = family n (ch (collectHealth c h start))"
proof -
  have "family n (ch (collectVersion c start)) = []"
    using n names_collectVersion [OF ok] by (intro family_none) auto
  moreover have "family n (ch (collectBalances c h start)) = []"
    using n names_collectBalances [OF ok] by (intro family_none) auto
  moreover have "family n (ch (collectVoteAccounts c start)) = []"
    using n names_collectVoteAccounts [OF ok] by (intro family_none) fastforce
  moreover have "family n (ch (collectMinimumLedgerSlot c start)) = []"
    using n names_collectMinimumLedgerSlot [OF ok] by (intro family_none) auto
  moreover have "family n (ch (collectFirstAvailableBlock c start)) = []"
    using n names_collectFirstAvailableBlock [OF ok] by (intro family_none) auto
  ultimately show ?thesis
    by (simp add: ch_Collect [OF ok] family_append family_Nil)
qed

lemma vote_families:
  assumes ok: "descs_ok c"
    and va: "GetVoteAccounts (rpcClient c) CommitmentConfirmed = Inr va"
  shows "family ''solana_validator_active_stake'' (ch (collectVoteAccounts c start)) =
      map (\<lambda>a. ConstMetric (ValidatorActiveStake c) (float64 (ActivatedStake a))
             [VotePubkey a, NodePubkey a]) (Current va @ Delinquent va)"
    and "family ''solana_validator_last_vote'' (ch (collectVoteAccounts c start)) =
      map (\<lambda>a. ConstMetric (ValidatorLastVote c) (float64 (LastVote a))
             [VotePubkey a, NodePubkey a]) (Current va @ Delinquent va)"
    and "family ''solana_validator_root_slot'' (ch (collectVoteAccounts c start)) =
      map (\<lambda>a. ConstMetric (ValidatorRootSlot c) (float64 (RootSlot a))
             [VotePubkey a, NodePubkey a]) (Current va @ Delinquent va)"
    and "family ''solana_validator_delinquent'' (ch (collectVoteAccounts c start)) =
      map (\<lambda>a. ConstMetric (ValidatorDelinquent c) 0 [VotePubkey a, NodePubkey a]) (Current va)
      @ map (\<lambda>a. ConstMetric (ValidatorDelinquent c) 1 [VotePubkey a, NodePubkey a])
          (Delinquent va)"
proof -
  have names: "Name (ValidatorActive c) = ''solana_validator_active''"
    "Name (ValidatorActiveStake c) = ''solana_validator_active_stake''"
    "Name (ValidatorLastVote c) = ''solana_validator_last_vote''"
    "Name (ValidatorRootSlot c) = ''solana_validator_root_slot''"
    "Name (ValidatorDelinquent c) = ''solana_validator_delinquent''"
    using ok by (simp_all add: descs_ok_def)
  have g1: "family ''solana_validator_active_stake'' (validator_gauges c a) =
      [ConstMetric (ValidatorActiveStake c) (float64 (ActivatedStake a))
         [VotePubkey a, NodePubkey a]]" for a
    by (simp add: validator_gauges_def family_Cons family_Nil names)
  have g2: "family ''solana_validator_last_vote'' (validator_gauges c a) =
      [ConstMetric (ValidatorLastVote c) (float64 (LastVote a))
         [VotePubkey a, NodePubkey a]]" for a
    by (simp add: validator_gauges_def family_Cons family_Nil names)
  have g3: "family ''solana_validator_root_slot'' (validator_gauges c a) =
      [ConstMetric (ValidatorRootSlot c) (float64 (RootSlot a))
         [VotePubkey a, NodePubkey a]]" for a
    by (simp add: validator_gauges_def family_Cons family_Nil names)
  have g4: "family ''solana_validator_delinquent'' (validator_gauges c a) = []" for a
    by (simp add: validator_gauges_def family_Cons family_Nil names)
  show "family ''solana_validator_active_stake'' (ch (collectVoteAccounts c start)) =
      map (\<lambda>a. ConstMetric (ValidatorActiveStake c) (float64 (ActivatedStake a))
             [VotePubkey a, NodePubkey a]) (Current va @ Delinquent va)"
    unfolding collectVoteAccounts_ok [OF ok va]
    by (simp add: family_append family_Cons family_Nil names family_concat_map [OF g1]
        family_map_none del: map_append)
  show "family ''solana_validator_last_vote'' (ch (collectVoteAccounts c start)) =
      map (\<lambda>a. ConstMetric (ValidatorLastVote c) (float64 (LastVote a))
             [VotePubkey a, NodePubkey a]) (Current va @ Delinquent va)"
    unfolding collectVoteAccounts_ok [OF ok va]
    by (simp add: family_append family_Cons family_Nil names family_concat_map [OF g2]
        family_map_none del: map_append)
  show "family ''solana_validator_root_slot'' (ch (collectVoteAccounts c start)) =
      map (\<lambda>a. ConstMetric (ValidatorRootSlot c) (float64 (RootSlot a))
             [VotePubkey a, NodePubkey a]) (Current va @ Delinquent va)"
    unfolding collectVoteAccounts_ok [OF ok va]
    by (simp add: family_append family_Cons family_Nil names family_concat_map [OF g3]
        family_map_none del: map_append)
  show "family ''solana_validator_delinquent'' (ch (collectVoteAccounts c start)) =
      map (\<lambda>a. ConstMetric (ValidatorDelinquent c) 0 [VotePubkey a, NodePubkey a]) (Current va)
      @ map (\<lambda>a. ConstMetric (ValidatorDelinquent c) 1 [VotePubkey a, NodePubkey a])
          (Delinquent va)"
    unfolding collectVoteAccounts_ok [OF ok va]
    by (simp add: family_append family_Cons family_Nil names family_concat_none [OF g4]
        family_map_all del: map_append)
qed

section \<open>Vote accounts\<close>

text \<open>
  Claim C6. When the vote-accounts query succeeds, the scrape emits exactly two
  \<open>validator_active\<close> observations: one labelled \<open>delinquent\<close> whose value is the number of
  delinquent validators and one labelled \<open>current\<close> whose value is the number of current
  validators; their values add up to the number of validators in the upstream answer.
\<close>

theorem validator_active_two_observations:
  assumes c: "c = NewSolanaCollector p pace balanceAddrs nodekeys votekeys ident"
    and va: "GetVoteAccounts p CommitmentConfirmed = Inr va"
  shows "family ''solana_validator_active'' (ch (Collect_scrape c h start)) =
           [ConstMetric (ValidatorActive c) (float64_of_len (length (Delinquent va)))
              [StateDelinquent],
            ConstMetric (ValidatorActive c) (float64_of_len (length (Current va)))
              [StateCurrent]]
         \<and> sum_list (map value_of (family ''solana_validator_active''
               (ch (Collect_scrape c h start)))) =
             real (length (Current va) + length (Delinquent va))"
proof -
  have ok: "descs_ok c" by (simp add: c descs_ok_New)
  have va': "GetVoteAccounts (rpcClient c) CommitmentConfirmed = Inr va"
    by (simp add: c New_sel va)
  have names: "Name (ValidatorActive c) = ''solana_validator_active''"
    "Name (ValidatorDelinquent c) = ''solana_validator_delinquent''"
    using ok by (simp_all add: descs_ok_def)
  have g: "family ''solana_validator_active'' (validator_gauges c a) = []" for a
    using ok by (simp add: validator_gauges_def family_Cons family_Nil descs_ok_def)
  have fam: "family ''solana_validator_active'' (ch (Collect_scrape c h start)) =
      [ConstMetric (ValidatorActive c) (float64_of_len (length (Delinquent va)))
              [StateDelinquent],
            ConstMetric (ValidatorActive c) (float64_of_len (length (Current va)))
              [StateCurrent]]"
    unfolding family_Collect_vote [OF ok, of "''solana_validator_active''", simplified]
      collectVoteAccounts_ok [OF ok va']
    by (simp add: family_append family_Cons family_Nil names family_concat_none [OF g]
        family_map_none)
  show ?thesis unfolding fam by (simp add: float64_of_len_def)
qed

theorem validator_active_two_observations_witness:
  "family ''solana_validator_active'' (ch (Collect_scrape (demo_collector demo_provider)
       demo_helpers start)) =
     [ConstMetric (ValidatorActive (demo_collector demo_provider)) 1 [''delinquent''],
      ConstMetric (ValidatorActive (demo_collector demo_provider)) 1 [''current'']]
   \<and> sum_list (map value_of (family ''solana_validator_active''
         (ch (Collect_scrape (demo_collector demo_provider) demo_helpers start)))) = 2"
proof -
  have va: "GetVoteAccounts demo_provider CommitmentConfirmed = Inr demo_voteAccounts"
    by (simp add: demo_provider_def)
  from validator_active_two_observations [OF demo_collector_def va, of demo_helpers]
  show ?thesis
    by (simp add: demo_voteAccounts_def float64_of_len_def StateDelinquent_def StateCurrent_def)
qed

text \<open>
  Claim C7 as stated fails on the values: an observation holds a \<^verbatim>\<open>float64\<close>, and a stake of
  \<open>2^53 + 1\<close> lamports is emitted as \<open>2^53\<close>.
\<close>

theorem stake_value_rounded_counterexample:
  "GetVoteAccounts big_stake_provider CommitmentConfirmed = Inr big_stake_voteAccounts
   \<and> map ActivatedStake (Current big_stake_voteAccounts) = [9007199254740993]
   \<and> family ''solana_validator_active_stake''
       (ch (Collect_scrape (demo_collector big_stake_provider) demo_helpers start)) =
       [ConstMetric (ValidatorActiveStake (demo_collector big_stake_provider))
          9007199254740992 [''V1'', ''N1'']]
   \<and> ConstMetric (ValidatorActiveStake (demo_collector big_stake_provider))
         9007199254740993 [''V1'', ''N1'']
       \<notin> set (family ''solana_validator_active_stake''
           (ch (Collect_scrape (demo_collector big_stake_provider) demo_helpers start)))"
proof -
  let ?c = "demo_collector big_stake_provider"
  have ok: "descs_ok ?c" by (simp add: demo_collector_def descs_ok_New)
  have va: "GetVoteAccounts big_stake_provider CommitmentConfirmed = Inr big_stake_voteAccounts"
    by (simp add: big_stake_provider_def)
  then have va': "GetVoteAccounts (rpcClient ?c) CommitmentConfirmed = Inr big_stake_voteAccounts"
    by (simp add: demo_collector_def New_sel)
  have st: "map ActivatedStake (Current big_stake_voteAccounts) = [9007199254740993]"
    by (simp add: big_stake_voteAccounts_def)
  have fam: "family ''solana_validator_active_stake''
       (ch (Collect_scrape ?c demo_helpers start)) =
       [ConstMetric (ValidatorActiveStake ?c) 9007199254740992 [''V1'', ''N1'']]"
    by (simp add: family_Collect_vote [OF ok] vote_families(1) [OF ok va']
        big_stake_voteAccounts_def float64_2_53_plus_1)
  have "ConstMetric (ValidatorActiveStake ?c) 9007199254740993 [''V1'', ''N1'']
       \<notin> set (family ''solana_validator_active_stake''
           (ch (Collect_scrape ?c demo_helpers start)))"
    unfolding fam by simp
  with va st fam show ?thesis by (intro conjI)
qed

text \<open>
  Claim C7, as amended. When the vote-accounts query succeeds and no record is in both
  partitions, each of the families \<open>validator_active_stake\<close>, \<open>validator_last_vote\<close>,
  \<open>validator_root_slot\<close> and \<open>validator_delinquent\<close> holds exactly one observation per record
  of \<open>current\<close> followed by \<open>delinquent\<close>, labelled with the record's vote and node keys; the
  values are the \<^verbatim>\<open>float64\<close> conversions of the record's activated stake, last vote and
  root slot, and 1 for a record of \<open>delinquent\<close>, 0 for a record of \<open>current\<close>. The
  conversion of an integer of magnitude at most \<open>2^53\<close> is the integer itself.
\<close>

theorem per_validator_observations:
  assumes c: "c = NewSolanaCollector p pace balanceAddrs nodekeys votekeys ident"
    and va: "GetVoteAccounts p CommitmentConfirmed = Inr va"
    and disj: "set (Current va) \<inter> set (Delinquent va) = {}"
  shows "family ''solana_validator_active_stake'' (ch (Collect_scrape c h start)) =
           map (\<lambda>a. ConstMetric (ValidatorActiveStake c) (float64 (ActivatedStake a))
                  [VotePubkey a, NodePubkey a]) (Current va @ Delinquent va)
         \<and> family ''solana_validator_last_vote'' (ch (Collect_scrape c h start)) =
           map (\<lambda>a. ConstMetric (ValidatorLastVote c) (float64 (LastVote a))
                  [VotePubkey a, NodePubkey a]) (Current va @ Delinquent va)
         \<and> family ''solana_validator_root_slot'' (ch (Collect_scrape c h start)) =
           map (\<lambda>a. ConstMetric (ValidatorRootSlot c) (float64 (RootSlot a))
                  [VotePubkey a, NodePubkey a]) (Current va @ Delinquent va)
         \<and> family ''solana_validator_delinquent'' (ch (Collect_scrape c h start)) =
           map (\<lambda>a. ConstMetric (ValidatorDelinquent c)
                  (if a \<in> set (Delinquent va) then 1 else 0)
                  [VotePubkey a, NodePubkey a]) (Current va @ Delinquent va)
         \<and> (\<bar>n\<bar> \<le> 2 ^ 53 \<longrightarrow> float64 n = real_of_int n)"
proof -
  have ok: "descs_ok c" by (simp add: c descs_ok_New)
  have va': "GetVoteAccounts (rpcClient c) CommitmentConfirmed = Inr va"
    by (simp add: c New_sel va)
  have cur: "map (\<lambda>a. ConstMetric (ValidatorDelinquent c)
                  (if a \<in> set (Delinquent va) then 1 else 0)
                  [VotePubkey a, NodePubkey a]) (Current va) =
      map (\<lambda>a. ConstMetric (ValidatorDelinquent c) 0 [VotePubkey a, NodePubkey a]) (Current va)"
    using disj by (intro map_cong refl) auto
  have del: "map (\<lambda>a. ConstMetric (ValidatorDelinquent c)
                  (if a \<in> set (Delinquent va) then 1 else 0)
                  [VotePubkey a, NodePubkey a]) (Delinquent va) =
      map (\<lambda>a. ConstMetric (ValidatorDelinquent c) 1 [VotePubkey a, NodePubkey a])
        (Delinquent va)"
    by (intro map_cong refl) auto
  have both: "map (\<lambda>a. ConstMetric (ValidatorDelinquent c)
                  (if a \<in> set (Delinquent va) then 1 else 0)
                  [VotePubkey a, NodePubkey a]) (Current va @ Delinquent va) =
      map (\<lambda>a. ConstMetric (ValidatorDelinquent c) 0 [VotePubkey a, NodePubkey a]) (Current va)
      @ map (\<lambda>a. ConstMetric (ValidatorDelinquent c) 1 [VotePubkey a, NodePubkey a])
          (Delinquent va)"
    unfolding map_append cur del by (rule refl)
  show ?thesis
    by (simp add: family_Collect_vote [OF ok] vote_families [OF ok va'] both float64_exact
        del: map_append)
qed

theorem per_validator_observations_witness:
  "family ''solana_validator_active_stake''
     (ch (Collect_scrape (demo_collector demo_provider) demo_helpers start)) =
     [ConstMetric (ValidatorActiveStake (demo_collector demo_provider)) 100 [''V1'', ''N1''],
      ConstMetric (ValidatorActiveStake (demo_collector demo_provider)) 7 [''V2'', ''N2'']]
   \<and> family ''solana_validator_last_vote''
     (ch (Collect_scrape (demo_collector demo_provider) demo_helpers start)) =
     [ConstMetric (ValidatorLastVote (demo_collector demo_provider)) 50 [''V1'', ''N1''],
      ConstMetric (ValidatorLastVote (demo_collector demo_provider)) 30 [''V2'', ''N2'']]
   \<and> family ''solana_validator_root_slot''
     (ch (Collect_scrape (demo_collector demo_provider) demo_helpers start)) =
     [ConstMetric (ValidatorRootSlot (demo_collector demo_provider)) 40 [''V1'', ''N1''],
      ConstMetric (ValidatorRootSlot (demo_collector demo_provider)) 20 [''V2'', ''N2'']]
   \<and> family ''solana_validator_delinquent''
     (ch (Collect_scrape (demo_collector demo_provider) demo_helpers start)) =
     [ConstMetric (ValidatorDelinquent (demo_collector demo_provider)) 0 [''V1'', ''N1''],
      ConstMetric (ValidatorDelinquent (demo_collector demo_provider)) 1 [''V2'', ''N2'']]
   \<and> float64 100 = 100"
proof -
  have va: "GetVoteAccounts demo_provider CommitmentConfirmed = Inr demo_voteAccounts"
    by (simp add: demo_provider_def)
  have disj: "set (Current demo_voteAccounts) \<inter> set (Delinquent demo_voteAccounts) = {}"
    by (simp add: demo_voteAccounts_def)
  from per_validator_observations [OF demo_collector_def va disj, of demo_helpers 100]
  show ?thesis
    by (simp add: demo_voteAccounts_def float64_exact)
qed

text \<open>
  Claim C10. With no assumption that the partitions are disjoint, each of the four
  per-validator families holds as many observations as \<open>current\<close> and \<open>delinquent\<close> have
  records together; a record that is in both partitions yields two \<open>validator_delinquent\<close>
  observations with the same labels, one of value 0 and one of value 1.
\<close>

theorem observations_without_disjointness:
  assumes c: "c = NewSolanaCollector p pace balanceAddrs nodekeys votekeys ident"
    and va: "GetVoteAccounts p CommitmentConfirmed = Inr va"
  shows "length (family ''solana_validator_active_stake'' (ch (Collect_scrape c h start))) =
           length (Current va) + length (Delinquent va)
         \<and> length (family ''solana_validator_last_vote'' (ch (Collect_scrape c h start))) =
           length (Current va) + length (Delinquent va)
         \<and> length (family ''solana_validator_root_slot'' (ch (Collect_scrape c h start))) =
           length (Current va) + length (Delinquent va)
         \<and> length (family ''solana_validator_delinquent'' (ch (Collect_scrape c h start))) =
           length (Current va) + length (Delinquent va)
         \<and> (a \<in> set (Current va) \<and> a \<in> set (Delinquent va) \<longrightarrow>
              ConstMetric (ValidatorDelinquent c) 0 [VotePubkey a, NodePubkey a]
                \<in> set (family ''solana_validator_delinquent'' (ch (Collect_scrape c h start)))
              \<and> ConstMetric (ValidatorDelinquent c) 1 [VotePubkey a, NodePubkey a]
                \<in> set (family ''solana_validator_delinquent''
                     (ch (Collect_scrape c h start))))"
proof -
  have ok: "descs_ok c" by (simp add: c descs_ok_New)
  have va': "GetVoteAccounts (rpcClient c) CommitmentConfirmed = Inr va"
    by (simp add: c New_sel va)
  show ?thesis
    by (auto simp add: family_Collect_vote [OF ok] vote_families [OF ok va'])
qed

theorem observations_without_disjointness_witness:
  "length (family ''solana_validator_active_stake''
     (ch (Collect_scrape
        (demo_collector (demo_provider\<lparr>GetVoteAccounts := \<lambda>_. Inr overlap_voteAccounts\<rparr>))
        demo_helpers start))) = 2
   \<and> length (family ''solana_validator_delinquent''
     (ch (Collect_scrape
        (demo_collector (demo_provider\<lparr>GetVoteAccounts := \<lambda>_. Inr overlap_voteAccounts\<rparr>))
        demo_helpers start))) = 2
   \<and> ConstMetric (ValidatorDelinquent
         (demo_collector (demo_provider\<lparr>GetVoteAccounts := \<lambda>_. Inr overlap_voteAccounts\<rparr>)))
         0 [''V1'', ''N1'']
       \<in> set (family ''solana_validator_delinquent''
         (ch (Collect_scrape
            (demo_collector (demo_provider\<lparr>GetVoteAccounts := \<lambda>_. Inr overlap_voteAccounts\<rparr>))
            demo_helpers start)))
   \<and> ConstMetric (ValidatorDelinquent
         (demo_collector (demo_provider\<lparr>GetVoteAccounts := \<lambda>_. Inr overlap_voteAccounts\<rparr>)))
         1 [''V1'', ''N1'']
       \<in> set (family ''solana_validator_delinquent''
         (ch (Collect_scrape
            (demo_collector (demo_provider\<lparr>GetVoteAccounts := \<lambda>_. Inr overlap_voteAccounts\<rparr>))
            demo_helpers start)))"
proof -
  let ?p = "demo_provider\<lparr>GetVoteAccounts := \<lambda>_. Inr overlap_voteAccounts\<rparr>"
  let ?a = "\<lparr>VotePubkey = ''V1'', NodePubkey = ''N1'', ActivatedStake = 100,
             LastVote = 50, RootSlot = 40\<rparr>"
  have va: "GetVoteAccounts ?p CommitmentConfirmed = Inr overlap_voteAccounts"
    by simp
  from observations_without_disjointness [OF demo_collector_def va, of demo_helpers ?a]
  show ?thesis
    by (simp add: overlap_voteAccounts_def)
qed

section \<open>Isolation of the sub-collections\<close>

lemma collectVersion_cong:
  "GetVersion (rpcClient c) = GetVersion (rpcClient c') \<Longrightarrow> NodeVersion c = NodeVersion c' \<Longrightarrow>
   collectVersion c = collectVersion c'"
  by (rule ext) (simp add: collectVersion_def split: sum.splits option.splits)

lemma collectBalances_cong:
  "FetchBalances h (balanceAddresses c) = FetchBalances h' (balanceAddresses c') \<Longrightarrow>
   AccountBalances c = AccountBalances c' \<Longrightarrow>
   collectBalances c h = collectBalances c' h'"
  by (rule ext) (simp add: collectBalances_def split: sum.splits option.splits)

lemma collectHealth_cong:
  "GetHealth (rpcClient c) = GetHealth (rpcClient c') \<Longrightarrow>
   UnpackRpcErrorData h = UnpackRpcErrorData h' \<Longrightarrow>
   NodeIsHealthy c = NodeIsHealthy c' \<Longrightarrow> NodeNumSlotsBehind c = NodeNumSlotsBehind c' \<Longrightarrow>
   identity c = identity c' \<Longrightarrow>
   collectHealth c h = collectHealth c' h'"
  by (rule ext) (simp add: collectHealth_def sendHealth_def Let_def split: sum.splits option.splits)

lemma collectMinimumLedgerSlot_cong:
  "GetMinimumLedgerSlot (rpcClient c) = GetMinimumLedgerSlot (rpcClient c') \<Longrightarrow>
   NodeMinimumLedgerSlot c = NodeMinimumLedgerSlot c' \<Longrightarrow> identity c = identity c' \<Longrightarrow>
   collectMinimumLedgerSlot c = collectMinimumLedgerSlot c'"
  by (rule ext) (simp add: collectMinimumLedgerSlot_def split: sum.splits option.splits)

lemma collectFirstAvailableBlock_cong:
  "GetFirstAvailableBlock (rpcClient c) = GetFirstAvailableBlock (rpcClient c') \<Longrightarrow>
   NodeFirstAvailableBlock c = NodeFirstAvailableBlock c' \<Longrightarrow> identity c = identity c' \<Longrightarrow>
   collectFirstAvailableBlock c = collectFirstAvailableBlock c'"
  by (rule ext) (simp add: collectFirstAvailableBlock_def split: sum.splits option.splits)

lemma collectVoteAccounts_cong:
  "GetVoteAccounts (rpcClient c) CommitmentConfirmed =
     GetVoteAccounts (rpcClient c') CommitmentConfirmed \<Longrightarrow>
   ValidatorActive c = ValidatorActive c' \<Longrightarrow>
   ValidatorActiveStake c = ValidatorActiveStake c' \<Longrightarrow>
   ValidatorLastVote c = ValidatorLastVote c' \<Longrightarrow>
   ValidatorRootSlot c = ValidatorRootSlot c' \<Longrightarrow>
   ValidatorDelinquent c = ValidatorDelinquent c' \<Longrightarrow>
   collectVoteAccounts c = collectVoteAccounts c'"
  by (rule ext) (simp add: collectVoteAccounts_def split: sum.splits option.splits)

lemma New_descs:
  "ValidatorActive (NewSolanaCollector p pace ba nk vk ident) =
     ValidatorActive (NewSolanaCollector p' pace' ba' nk' vk' ident')"
  "ValidatorActiveStake (NewSolanaCollector p pace ba nk vk ident) =
     ValidatorActiveStake (NewSolanaCollector p' pace' ba' nk' vk' ident')"
  "ValidatorLastVote (NewSolanaCollector p pace ba nk vk ident) =
     ValidatorLastVote (NewSolanaCollector p' pace' ba' nk' vk' ident')"
  "ValidatorRootSlot (NewSolanaCollector p pace ba nk vk ident) =
     ValidatorRootSlot (NewSolanaCollector p' pace' ba' nk' vk' ident')"
  "ValidatorDelinquent (NewSolanaCollector p pace ba nk vk ident) =
     ValidatorDelinquent (NewSolanaCollector p' pace' ba' nk' vk' ident')"
  "AccountBalances (NewSolanaCollector p pace ba nk vk ident) =
     AccountBalances (NewSolanaCollector p' pace' ba' nk' vk' ident')"
  "NodeVersion (NewSolanaCollector p pace ba nk vk ident) =
     NodeVersion (NewSolanaCollector p' pace' ba' nk' vk' ident')"
  "NodeIsHealthy (NewSolanaCollector p pace ba nk vk ident) =
     NodeIsHealthy (NewSolanaCollector p' pace' ba' nk' vk' ident')"
  "NodeNumSlotsBehind (NewSolanaCollector p pace ba nk vk ident) =
     NodeNumSlotsBehind (NewSolanaCollector p' pace' ba' nk' vk' ident')"
  "NodeMinimumLedgerSlot (NewSolanaCollector p pace ba nk vk ident) =
     NodeMinimumLedgerSlot (NewSolanaCollector p' pace' ba' nk' vk' ident')"
  "NodeFirstAvailableBlock (NewSolanaCollector p pace ba nk vk ident) =
     NodeFirstAvailableBlock (NewSolanaCollector p' pace' ba' nk' vk' ident')"
  by (simp_all add: NewSolanaCollector_def)

lemma other_families_append: "other_families (xs @ ys) = other_families xs @ other_families ys"
  by (simp add: other_families_def)

lemma other_families_vote:
  assumes ok: "descs_ok c"
  shows "other_families (ch (collectVoteAccounts c start)) = []"
  unfolding other_families_def vote_account_families_def
  using names_collectVoteAccounts [OF ok] by (auto simp: filter_empty_conv)

lemma other_families_Collect:
  assumes ok: "descs_ok c"
  shows "other_families (ch (Collect_scrape c h start)) =
     other_families (ch (collectVersion c start) @ ch (collectBalances c h start)
       @ ch (collectHealth c h start)
       @ (if status (collectHealth c h start) = Running
          then ch (collectMinimumLedgerSlot c start) @ ch (collectFirstAvailableBlock c start)
          else []))"
  unfolding ch_Collect [OF ok] other_families_append [of "ch (collectVoteAccounts c start)"]
    other_families_vote [OF ok]
  by simp

text \<open>
  Claim C3. When the vote-accounts query fails, each of the five vote-account families
  holds exactly one failure sentinel and no normal observation, and the observations of all
  other families are the same as in the scrape that differs only in the outcome of the
  vote-accounts query, whatever that outcome is.
\<close>

theorem vote_accounts_failure_isolated:
  assumes c: "c = NewSolanaCollector p pace balanceAddrs nodekeys votekeys ident"
    and c': "c' = NewSolanaCollector (p\<lparr>GetVoteAccounts := g\<rparr>) pace balanceAddrs nodekeys
               votekeys ident"
    and fail: "GetVoteAccounts p CommitmentConfirmed = Inl err"
  shows "family ''solana_validator_active'' (ch (Collect_scrape c h start)) =
           [InvalidMetric (ValidatorActive c) err]
         \<and> family ''solana_validator_active_stake'' (ch (Collect_scrape c h start)) =
           [InvalidMetric (ValidatorActiveStake c) err]
         \<and> family ''solana_validator_last_vote'' (ch (Collect_scrape c h start)) =
           [InvalidMetric (ValidatorLastVote c) err]
         \<and> family ''solana_validator_root_slot'' (ch (Collect_scrape c h start)) =
           [InvalidMetric (ValidatorRootSlot c) err]
         \<and> family ''solana_validator_delinquent'' (ch (Collect_scrape c h start)) =
           [InvalidMetric (ValidatorDelinquent c) err]
         \<and> other_families (ch (Collect_scrape c h start)) =
           other_families (ch (Collect_scrape c' h start))"
proof -
  have ok: "descs_ok c" and ok': "descs_ok c'" by (simp_all add: c c' descs_ok_New)
  have fail': "GetVoteAccounts (rpcClient c) CommitmentConfirmed = Inl err"
    by (simp add: c New_sel fail)
  have names: "Name (ValidatorActive c) = ''solana_validator_active''"
    "Name (ValidatorActiveStake c) = ''solana_validator_active_stake''"
    "Name (ValidatorLastVote c) = ''solana_validator_last_vote''"
    "Name (ValidatorRootSlot c) = ''solana_validator_root_slot''"
    "Name (ValidatorDelinquent c) = ''solana_validator_delinquent''"
    using ok by (simp_all add: descs_ok_def)
  have ver: "collectVersion c = collectVersion c'"
    by (rule collectVersion_cong) (simp_all add: c c' New_sel New_descs)
  have bal: "collectBalances c h = collectBalances c' h"
    by (rule collectBalances_cong) (simp_all add: c c' New_sel New_descs)
  have hea: "collectHealth c h = collectHealth c' h"
    by (rule collectHealth_cong) (simp_all add: c c' New_sel New_descs)
  have mls: "collectMinimumLedgerSlot c = collectMinimumLedgerSlot c'"
    by (rule collectMinimumLedgerSlot_cong) (simp_all add: c c' New_sel New_descs)
  have fab: "collectFirstAvailableBlock c = collectFirstAvailableBlock c'"
    by (rule collectFirstAvailableBlock_cong) (simp_all add: c c' New_sel New_descs)
  have others: "other_families (ch (Collect_scrape c h start)) =
      other_families (ch (Collect_scrape c' h start))"
    unfolding other_families_Collect [OF ok] other_families_Collect [OF ok'] ver bal hea mls fab
    by (rule refl)
  show ?thesis
    by (simp add: family_Collect_vote [OF ok] collectVoteAccounts_fail [OF fail']
        family_Cons family_Nil names others)
qed

theorem vote_accounts_failure_isolated_witness:
  "family ''solana_validator_active''
     (ch (Collect_scrape (demo_collector vote_failure_provider) demo_helpers start)) =
     [InvalidMetric (ValidatorActive (demo_collector vote_failure_provider))
        (ErrorString ''connection refused'')]
   \<and> family ''solana_validator_active_stake''
     (ch (Collect_scrape (demo_collector vote_failure_provider) demo_helpers start)) =
     [InvalidMetric (ValidatorActiveStake (demo_collector vote_failure_provider))
        (ErrorString ''connection refused'')]
   \<and> family ''solana_validator_last_vote''
     (ch (Collect_scrape (demo_collector vote_failure_provider) demo_helpers start)) =
     [InvalidMetric (ValidatorLastVote (demo_collector vote_failure_provider))
        (ErrorString ''connection refused'')]
   \<and> family ''solana_validator_root_slot''
     (ch (Collect_scrape (demo_collector vote_failure_provider) demo_helpers start)) =
     [InvalidMetric (ValidatorRootSlot (demo_collector vote_failure_provider))
        (ErrorString ''connection refused'')]
   \<and> family ''solana_validator_delinquent''
     (ch (Collect_scrape (demo_collector vote_failure_provider) demo_helpers start)) =
     [InvalidMetric (ValidatorDelinquent (demo_collector vote_failure_provider))
        (ErrorString ''connection refused'')]
   \<and> other_families
     (ch (Collect_scrape (demo_collector vote_failure_provider) demo_helpers start)) =
     other_families
       (ch (Collect_scrape
          (demo_collector (vote_failure_provider\<lparr>GetVoteAccounts := \<lambda>_. Inr demo_voteAccounts\<rparr>))
          demo_helpers start))"
proof -
  have fail: "GetVoteAccounts vote_failure_provider CommitmentConfirmed =
      Inl (ErrorString ''connection refused'')"
    by (simp add: vote_failure_provider_def)
  show ?thesis
    by (rule vote_accounts_failure_isolated [OF demo_collector_def demo_collector_def fail])
qed

lemma calls_Collect:
  assumes ok: "descs_ok c"
  shows "calls (Collect_scrape c h start) =
     [CallGetVoteAccounts, CallGetVersion, CallFetchBalances]
     @ calls (collectHealth c h start)
     @ (if status (collectHealth c h start) = Running
        then [CallGetMinimumLedgerSlot, CallGetFirstAvailableBlock] else [])"
proof -
  have "calls (collectVoteAccounts c start) = [CallGetVoteAccounts]"
    by (cases "GetVoteAccounts (rpcClient c) CommitmentConfirmed")
      (simp_all add: collectVoteAccounts_fail collectVoteAccounts_ok [OF ok])
  moreover have "calls (collectVersion c start) = [CallGetVersion]"
    by (cases "GetVersion (rpcClient c)")
      (simp_all add: collectVersion_fail collectVersion_ok [OF ok])
  moreover have "calls (collectBalances c h start) = [CallFetchBalances]"
    by (cases "FetchBalances h (balanceAddresses c)")
      (simp_all add: collectBalances_fail collectBalances_ok [OF ok])
  moreover have "calls (collectMinimumLedgerSlot c start) = [CallGetMinimumLedgerSlot]"
    by (cases "GetMinimumLedgerSlot (rpcClient c)")
      (simp_all add: collectMinimumLedgerSlot_fail collectMinimumLedgerSlot_ok [OF ok])
  moreover have "calls (collectFirstAvailableBlock c start) = [CallGetFirstAvailableBlock]"
    by (cases "GetFirstAvailableBlock (rpcClient c)")
      (simp_all add: collectFirstAvailableBlock_fail collectFirstAvailableBlock_ok [OF ok])
  ultimately show ?thesis by (simp add: Collect_app [OF ok])
qed

lemma collectHealth_sentinels:
  assumes err: "GetHealth (rpcClient c) = Inl err"
    and cls: "case errors_As err of None \<Rightarrow> True | Some rpcError \<Rightarrow> Data rpcError = None"
  shows "collectHealth c h start =
     \<lparr>ch = [InvalidMetric (NodeIsHealthy c) err, InvalidMetric (NodeNumSlotsBehind c) err],
      logged = [ErrorEntry ''failed to get health: %v'' err],
      calls = [CallGetHealth], status = Running\<rparr>"
proof (cases "errors_As err")
  case None
  then show ?thesis by (rule collectHealth_plain_error [OF err])
next
  case (Some rpcError)
  with cls have "Data rpcError = None" by simp
  with err Some show ?thesis by (rule collectHealth_no_payload)
qed

text \<open>
  Claim C4. When the health query fails with an error that is not a structured RPC error,
  or with a structured RPC error without secondary payload, the families \<open>node_is_healthy\<close>
  and \<open>node_num_slots_behind\<close> each hold exactly one failure sentinel and no normal
  observation, and the decoder is not called.
\<close>

theorem health_failure_sentinels:
  assumes c: "c = NewSolanaCollector p pace balanceAddrs nodekeys votekeys ident"
    and err: "GetHealth p = Inl err"
    and cls: "case errors_As err of None \<Rightarrow> True | Some rpcError \<Rightarrow> Data rpcError = None"
  shows "family ''solana_node_is_healthy'' (ch (Collect_scrape c h start)) =
           [InvalidMetric (NodeIsHealthy c) err]
         \<and> family ''solana_node_num_slots_behind'' (ch (Collect_scrape c h start)) =
           [InvalidMetric (NodeNumSlotsBehind c) err]
         \<and> CallUnpackRpcErrorData \<notin> set (calls (Collect_scrape c h start))"
proof -
  have ok: "descs_ok c" by (simp add: c descs_ok_New)
  have err': "GetHealth (rpcClient c) = Inl err" by (simp add: c New_sel err)
  have names: "Name (NodeIsHealthy c) = ''solana_node_is_healthy''"
    "Name (NodeNumSlotsBehind c) = ''solana_node_num_slots_behind''"
    using ok by (simp_all add: descs_ok_def)
  note H = collectHealth_sentinels [OF err' cls, of h]
  show ?thesis
    by (simp add: family_Collect_health [OF ok] calls_Collect [OF ok] H family_Cons family_Nil
        names)
qed

theorem health_failure_sentinels_witness:
  "family ''solana_node_is_healthy''
     (ch (Collect_scrape (demo_collector no_payload_provider) demo_helpers start)) =
     [InvalidMetric (NodeIsHealthy (demo_collector no_payload_provider))
        (Wrapped ''getHealth'' (RpcErr \<lparr>Method = ''getHealth'', Data = None\<rparr>))]
   \<and> family ''solana_node_num_slots_behind''
     (ch (Collect_scrape (demo_collector no_payload_provider) demo_helpers start)) =
     [InvalidMetric (NodeNumSlotsBehind (demo_collector no_payload_provider))
        (Wrapped ''getHealth'' (RpcErr \<lparr>Method = ''getHealth'', Data = None\<rparr>))]
   \<and> CallUnpackRpcErrorData
       \<notin> set (calls (Collect_scrape (demo_collector no_payload_provider) demo_helpers start))
   \<and> family ''solana_node_is_healthy''
     (ch (Collect_scrape (demo_collector transport_failure_provider) demo_helpers start)) =
     [InvalidMetric (NodeIsHealthy (demo_collector transport_failure_provider))
        (ErrorString ''timeout'')]
   \<and> family ''solana_node_num_slots_behind''
     (ch (Collect_scrape (demo_collector transport_failure_provider) demo_helpers start)) =
     [InvalidMetric (NodeNumSlotsBehind (demo_collector transport_failure_provider))
        (ErrorString ''timeout'')]
   \<and> CallUnpackRpcErrorData
       \<notin> set (calls (Collect_scrape (demo_collector transport_failure_provider) demo_helpers
            start))"
proof -
  let ?e = "Wrapped ''getHealth'' (RpcErr \<lparr>Method = ''getHealth'', Data = None\<rparr>)"
  have e1: "GetHealth no_payload_provider = Inl ?e"
    by (simp add: no_payload_provider_def)
  have c1: "case errors_As ?e of None \<Rightarrow> True | Some rpcError \<Rightarrow> Data rpcError = None"
    by simp
  have e2: "GetHealth transport_failure_provider = Inl (ErrorString ''timeout'')"
    by (simp add: transport_failure_provider_def)
  have c2: "case errors_As (ErrorString ''timeout'') of None \<Rightarrow> True
      | Some rpcError \<Rightarrow> Data rpcError = None"
    by simp
  from health_failure_sentinels [OF demo_collector_def e1 c1, of demo_helpers]
    health_failure_sentinels [OF demo_collector_def e2 c2, of demo_helpers]
  show ?thesis by (intro conjI) (elim conjE; assumption)+
qed

text \<open>
  Claim C5. When the health query fails with a structured RPC error whose secondary payload
  is present and the decoder rejects it, the process ends inside the health
  sub-collection: no health observation, normal or sentinel, is emitted, the channel holds
  what vote accounts, version and balances sent, the decoder call is the last upstream
  call, and the fatal log line is the last thing logged.
\<close>

theorem undecodable_payload_is_fatal:
  assumes c: "c = NewSolanaCollector p pace balanceAddrs nodekeys votekeys ident"
    and err: "GetHealth p = Inl err"
    and rpc: "errors_As err = Some rpcError"
    and payload: "Data rpcError = Some d"
    and undecodable: "UnpackRpcErrorData h rpcError \<lparr>NumSlotsBehind = 0\<rparr> = Some err'"
  shows "status (Collect_scrape c h start) = Exited
         \<and> family ''solana_node_is_healthy'' (ch (Collect_scrape c h start)) = []
         \<and> family ''solana_node_num_slots_behind'' (ch (Collect_scrape c h start)) = []
         \<and> ch (Collect_scrape c h start) =
             ch (collectBalances c h (collectVersion c (collectVoteAccounts c start)))
         \<and> calls (Collect_scrape c h start) =
             [CallGetVoteAccounts, CallGetVersion, CallFetchBalances, CallGetHealth,
              CallUnpackRpcErrorData]
         \<and> last (logged (Collect_scrape c h start)) =
             FatalEntry ''failed to unpack %s rpc error: %v'' (Method rpcError) err'"
proof -
  have ok: "descs_ok c" by (simp add: c descs_ok_New)
  have err': "GetHealth (rpcClient c) = Inl err" by (simp add: c New_sel err)
  note H = collectHealth_fatal [OF err' rpc payload undecodable]
  have pre: "collectBalances c h (collectVersion c (collectVoteAccounts c start)) =
      app (collectVoteAccounts c start) (app (collectVersion c start)
        (collectBalances c h start))"
    using ok
    by (simp add: framed_running [OF framed_collectVersion]
        framed_running [OF framed_collectBalances] status_collectVoteAccounts
        status_collectVersion app_assoc)
  have "status (Collect_scrape c h start) = Exited"
    by (simp add: Collect_app [OF ok] H)
  moreover have "family ''solana_node_is_healthy'' (ch (Collect_scrape c h start)) = []"
    "family ''solana_node_num_slots_behind'' (ch (Collect_scrape c h start)) = []"
    by (simp_all add: family_Collect_health [OF ok] H family_Nil)
  moreover have "ch (Collect_scrape c h start) =
      ch (collectBalances c h (collectVersion c (collectVoteAccounts c start)))"
    by (simp add: ch_Collect [OF ok] pre H)
  moreover have "calls (Collect_scrape c h start) =
      [CallGetVoteAccounts, CallGetVersion, CallFetchBalances, CallGetHealth,
       CallUnpackRpcErrorData]"
    by (simp add: calls_Collect [OF ok] H)
  moreover have "last (logged (Collect_scrape c h start)) =
      FatalEntry ''failed to unpack %s rpc error: %v'' (Method rpcError) err'"
    by (simp add: Collect_app [OF ok] H)
  ultimately show ?thesis by (intro conjI)
qed

theorem undecodable_payload_is_fatal_witness:
  "status (Collect_scrape (demo_collector bad_payload_provider) demo_helpers start) = Exited
   \<and> family ''solana_node_is_healthy''
       (ch (Collect_scrape (demo_collector bad_payload_provider) demo_helpers start)) = []
   \<and> family ''solana_node_num_slots_behind''
       (ch (Collect_scrape (demo_collector bad_payload_provider) demo_helpers start)) = []
   \<and> calls (Collect_scrape (demo_collector bad_payload_provider) demo_helpers start) =
       [CallGetVoteAccounts, CallGetVersion, CallFetchBalances, CallGetHealth,
        CallUnpackRpcErrorData]
   \<and> last (logged (Collect_scrape (demo_collector bad_payload_provider) demo_helpers start)) =
       FatalEntry ''failed to unpack %s rpc error: %v'' ''getHealth''
         (ErrorString ''failed to unmarshal rpc-error data'')"
proof -
  let ?r = "\<lparr>Method = ''getHealth'', Data = Some (JStr ''behind'')\<rparr>"
  have e: "GetHealth bad_payload_provider = Inl (RpcErr ?r)"
    by (simp add: bad_payload_provider_def)
  have r: "errors_As (RpcErr ?r) = Some ?r" by simp
  have d: "Data ?r = Some (JStr ''behind'')" by simp
  have u: "UnpackRpcErrorData demo_helpers ?r \<lparr>NumSlotsBehind = 0\<rparr> =
      Some (ErrorString ''failed to unmarshal rpc-error data'')"
    by (simp add: demo_helpers_def UnpackRpcErrorData_spec_def decodeNumSlotsBehind_def)
  note t = undecodable_payload_is_fatal [OF demo_collector_def e r d u]
  from t [THEN conjunct1] t [THEN conjunct2, THEN conjunct1]
    t [THEN conjunct2, THEN conjunct2, THEN conjunct1]
    t [THEN conjunct2, THEN conjunct2, THEN conjunct2, THEN conjunct2]
  show ?thesis by simp
qed

section \<open>Health\<close>

lemma slots_behind_value_zero:
  assumes ok: "descs_ok c"
    and m: "m \<in> set (family ''solana_node_num_slots_behind'' (ch (Collect_scrape c h start)))"
    and normal: "\<not> is_invalid m"
  shows "value_of m = 0"
proof -
  from m have "m \<in> set (family ''solana_node_num_slots_behind'' (ch (collectHealth c h start)))"
    unfolding family_Collect_health [OF ok, of "''solana_node_num_slots_behind''", simplified] .
  then have m': "m \<in> set (ch (collectHealth c h start))"
    by (simp add: family_def)
  from m have n: "Name (desc_of m) = ''solana_node_num_slots_behind''"
    by (simp add: family_def)
  have "Name (NodeIsHealthy c) = ''solana_node_is_healthy''"
    using ok by (simp add: descs_ok_def)
  with m' n normal show ?thesis
    by (cases rule: collectHealth_cases [OF ok, of h]) (auto simp: float64_0)
qed

text \<open>
  Claim C2. A healthy node is reported as \<open>node_is_healthy = 1\<close>,
  \<open>node_num_slots_behind = 0\<close>, labelled with the configured identity. For a node whose
  health query fails with a structured RPC error carrying the decodable payload
  \<open>{numSlotsBehind: 7}\<close> the claim expects \<open>node_is_healthy = 0\<close>,
  \<open>node_num_slots_behind = 7\<close>; the scrape emits \<open>node_num_slots_behind = 0\<close> and no
  observation of value 7, because the decoded value never reaches the caller's
  \<open>errorData\<close>.
\<close>

theorem unhealthy_node_reports_zero_slots_behind:
  "family ''solana_node_is_healthy''
     (ch (Collect_scrape (demo_collector demo_provider) demo_helpers start)) =
     [ConstMetric (NodeIsHealthy (demo_collector demo_provider)) 1 [''ID'']]
   \<and> family ''solana_node_num_slots_behind''
     (ch (Collect_scrape (demo_collector demo_provider) demo_helpers start)) =
     [ConstMetric (NodeNumSlotsBehind (demo_collector demo_provider)) 0 [''ID'']]
   \<and> decodeNumSlotsBehind (JObj [(''numSlotsBehind'', JNum 7)]) = Some 7
   \<and> family ''solana_node_is_healthy''
     (ch (Collect_scrape (demo_collector unhealthy_provider) demo_helpers start)) =
     [ConstMetric (NodeIsHealthy (demo_collector unhealthy_provider)) 0 [''ID'']]
   \<and> family ''solana_node_num_slots_behind''
     (ch (Collect_scrape (demo_collector unhealthy_provider) demo_helpers start)) =
     [ConstMetric (NodeNumSlotsBehind (demo_collector unhealthy_provider)) 0 [''ID'']]
   \<and> ConstMetric (NodeNumSlotsBehind (demo_collector unhealthy_provider)) 7 [''ID'']
       \<notin> set (ch (Collect_scrape (demo_collector unhealthy_provider) demo_helpers start))"
proof -
  let ?c = "demo_collector demo_provider"
  let ?u = "demo_collector unhealthy_provider"
  let ?r = "\<lparr>Method = ''getHealth'', Data = Some (JObj [(''numSlotsBehind'', JNum 7)])\<rparr>"
  have ok: "descs_ok ?c" and oku: "descs_ok ?u"
    by (simp_all add: demo_collector_def descs_ok_New)
  have names: "Name (NodeIsHealthy ?c) = ''solana_node_is_healthy''"
    "Name (NodeNumSlotsBehind ?c) = ''solana_node_num_slots_behind''"
    "Name (NodeIsHealthy ?u) = ''solana_node_is_healthy''"
    "Name (NodeNumSlotsBehind ?u) = ''solana_node_num_slots_behind''"
    using ok oku by (simp_all add: descs_ok_def)
  have ident: "identity ?c = ''ID''" "identity ?u = ''ID''"
    by (simp_all add: demo_collector_def New_sel)
  have dec: "decodeNumSlotsBehind (JObj [(''numSlotsBehind'', JNum 7)]) = Some 7"
    by (simp add: decodeNumSlotsBehind_def)
  have "GetHealth (rpcClient ?c) = Inr ''ok''"
    by (simp add: demo_collector_def New_sel demo_provider_def)
  note healthy = collectHealth_ok [OF ok this, of demo_helpers]
  have e: "GetHealth (rpcClient ?u) = Inl (RpcErr ?r)"
    by (simp add: demo_collector_def New_sel unhealthy_provider_def)
  have r: "errors_As (RpcErr ?r) = Some ?r" by simp
  have d: "Data ?r = Some (JObj [(''numSlotsBehind'', JNum 7)])" by simp
  have u: "UnpackRpcErrorData demo_helpers ?r \<lparr>NumSlotsBehind = 0\<rparr> = None"
    by (simp add: demo_helpers_def UnpackRpcErrorData_spec_def dec)
  note unhealthy = collectHealth_unpacked [OF oku e r d u]
  have no7: "ConstMetric (NodeNumSlotsBehind ?u) 7 [''ID'']
      \<notin> set (ch (Collect_scrape ?u demo_helpers start))"
  proof
    assume "ConstMetric (NodeNumSlotsBehind ?u) 7 [''ID'']
      \<in> set (ch (Collect_scrape ?u demo_helpers start))"
    then have "ConstMetric (NodeNumSlotsBehind ?u) 7 [''ID'']
      \<in> set (family ''solana_node_num_slots_behind''
            (ch (Collect_scrape ?u demo_helpers start)))"
      by (simp add: family_def names)
    from slots_behind_value_zero [OF oku this] show False by simp
  qed
  have "family ''solana_node_is_healthy'' (ch (Collect_scrape ?c demo_helpers start)) =
      [ConstMetric (NodeIsHealthy ?c) 1 [''ID'']]"
    by (simp add: family_Collect_health [OF ok] healthy family_Cons family_Nil names ident
        float64_0 float64_1)
  moreover have "family ''solana_node_num_slots_behind''
      (ch (Collect_scrape ?c demo_helpers start)) =
      [ConstMetric (NodeNumSlotsBehind ?c) 0 [''ID'']]"
    by (simp add: family_Collect_health [OF ok] healthy family_Cons family_Nil names ident
        float64_0 float64_1)
  moreover have "family ''solana_node_is_healthy''
      (ch (Collect_scrape ?u demo_helpers start)) =
      [ConstMetric (NodeIsHealthy ?u) 0 [''ID'']]"
    by (simp add: family_Collect_health [OF oku] unhealthy family_Cons family_Nil names ident
        float64_0 float64_1)
  moreover have "family ''solana_node_num_slots_behind''
      (ch (Collect_scrape ?u demo_helpers start)) =
      [ConstMetric (NodeNumSlotsBehind ?u) 0 [''ID'']]"
    by (simp add: family_Collect_health [OF oku] unhealthy family_Cons family_Nil names ident
        float64_0 float64_1)
  ultimately show ?thesis using dec no7 by (intro conjI)
qed

section \<open>Sentinels and normal observations never mix\<close>

lemma list_all_family: "list_all P ms \<Longrightarrow> list_all P (family n ms)"
  by (simp add: family_def list_all_iff)

lemma uniform_collectVoteAccounts:
  assumes ok: "descs_ok c"
  shows "list_all is_invalid (ch (collectVoteAccounts c start))
     \<or> list_all (\<lambda>m. \<not> is_invalid m) (ch (collectVoteAccounts c start))"
proof (cases "GetVoteAccounts (rpcClient c) CommitmentConfirmed")
  case (Inl err)
  then show ?thesis by (simp add: collectVoteAccounts_fail)
next
  case (Inr va)
  have "list_all (\<lambda>m. \<not> is_invalid m) (ch (collectVoteAccounts c start))"
    unfolding collectVoteAccounts_ok [OF ok Inr]
    by (auto simp: list_all_iff validator_gauges_def)
  then show ?thesis ..
qed

lemma uniform_collectVersion:
  assumes ok: "descs_ok c"
  shows "list_all is_invalid (ch (collectVersion c start))
     \<or> list_all (\<lambda>m. \<not> is_invalid m) (ch (collectVersion c start))"
  by (cases "GetVersion (rpcClient c)")
    (simp_all add: collectVersion_fail collectVersion_ok [OF ok])

lemma uniform_collectBalances:
  assumes ok: "descs_ok c"
  shows "list_all is_invalid (ch (collectBalances c h start))
     \<or> list_all (\<lambda>m. \<not> is_invalid m) (ch (collectBalances c h start))"
  by (cases "FetchBalances h (balanceAddresses c)")
    (auto simp: collectBalances_fail collectBalances_ok [OF ok] list_all_iff)

lemma uniform_collectHealth:
  assumes ok: "descs_ok c"
  shows "list_all is_invalid (ch (collectHealth c h start))
     \<or> list_all (\<lambda>m. \<not> is_invalid m) (ch (collectHealth c h start))"
  by (cases rule: collectHealth_cases [OF ok, of h]) simp_all

lemma uniform_collectMinimumLedgerSlot:
  assumes ok: "descs_ok c"
  shows "list_all is_invalid (ch (collectMinimumLedgerSlot c start))
     \<or> list_all (\<lambda>m. \<not> is_invalid m) (ch (collectMinimumLedgerSlot c start))"
  by (cases "GetMinimumLedgerSlot (rpcClient c)")
    (simp_all add: collectMinimumLedgerSlot_fail collectMinimumLedgerSlot_ok [OF ok])

lemma uniform_collectFirstAvailableBlock:
  assumes ok: "descs_ok c"
  shows "list_all is_invalid (ch (collectFirstAvailableBlock c start))
     \<or> list_all (\<lambda>m. \<not> is_invalid m) (ch (collectFirstAvailableBlock c start))"
  by (cases "GetFirstAvailableBlock (rpcClient c)")
    (simp_all add: collectFirstAvailableBlock_fail collectFirstAvailableBlock_ok [OF ok])

lemma uniform_family:
  "list_all is_invalid ms \<or> list_all (\<lambda>m. \<not> is_invalid m) ms \<Longrightarrow>
   list_all is_invalid (family n ms) \<or> list_all (\<lambda>m. \<not> is_invalid m) (family n ms)"
  using list_all_family by blast

lemma family_Collect_parts:
  assumes ok: "descs_ok c"
  shows "family n (ch (Collect_scrape c h start)) =
     family n (ch (collectVoteAccounts c start)) @ family n (ch (collectVersion c start))
     @ family n (ch (collectBalances c h start)) @ family n (ch (collectHealth c h start))
     @ (if status (collectHealth c h start) = Running
        then family n (ch (collectMinimumLedgerSlot c start))
          @ family n (ch (collectFirstAvailableBlock c start))
        else [])"
  by (simp add: ch_Collect [OF ok] family_append family_Nil)

lemma family_single_owner:
  assumes ok: "descs_ok c"
  shows "family n (ch (Collect_scrape c h start)) \<in>
     {family n (ch (collectVoteAccounts c start)), family n (ch (collectVersion c start)),
      family n (ch (collectBalances c h start)), family n (ch (collectHealth c h start)),
      family n (ch (collectMinimumLedgerSlot c start)),
      family n (ch (collectFirstAvailableBlock c start)), []}"
proof -
  let ?V = "{''solana_validator_active'', ''solana_validator_active_stake'',
     ''solana_validator_last_vote'', ''solana_validator_root_slot'',
     ''solana_validator_delinquent''}"
  let ?H = "{''solana_node_is_healthy'', ''solana_node_num_slots_behind''}"
  have eA: "family n (ch (collectVoteAccounts c start)) = []" if "n \<notin> ?V"
    using that names_collectVoteAccounts [OF ok] by (intro family_none) blast
  have eB: "family n (ch (collectVersion c start)) = []" if "n \<noteq> ''solana_node_version''"
    using that names_collectVersion [OF ok] by (intro family_none) blast
  have eC: "family n (ch (collectBalances c h start)) = []"
    if "n \<noteq> ''solana_account_balance''"
    using that names_collectBalances [OF ok] by (intro family_none) blast
  have eD: "family n (ch (collectHealth c h start)) = []" if "n \<notin> ?H"
    using that names_collectHealth [OF ok] by (intro family_none) blast
  have eE: "family n (ch (collectMinimumLedgerSlot c start)) = []"
    if "n \<noteq> ''solana_node_minimum_ledger_slot''"
    using that names_collectMinimumLedgerSlot [OF ok] by (intro family_none) blast
  have eF: "family n (ch (collectFirstAvailableBlock c start)) = []"
    if "n \<noteq> ''solana_node_first_available_block''"
    using that names_collectFirstAvailableBlock [OF ok] by (intro family_none) blast
  consider (A) "n \<in> ?V" | (B) "n = ''solana_node_version''"
    | (C) "n = ''solana_account_balance''" | (D) "n \<in> ?H"
    | (E) "n = ''solana_node_minimum_ledger_slot''"
    | (F) "n = ''solana_node_first_available_block''"
    | (G) "n \<notin> ?V" "n \<noteq> ''solana_node_version''" "n \<noteq> ''solana_account_balance''"
        "n \<notin> ?H" "n \<noteq> ''solana_node_minimum_ledger_slot''"
        "n \<noteq> ''solana_node_first_available_block''"
    by argo
  then show ?thesis
  proof cases
    case A
    then have "n \<noteq> ''solana_node_version''" "n \<noteq> ''solana_account_balance''" "n \<notin> ?H"
      "n \<noteq> ''solana_node_minimum_ledger_slot''" "n \<noteq> ''solana_node_first_available_block''"
      by auto
    then show ?thesis
      by (simp add: family_Collect_parts [OF ok] eB eC eD eE eF)
  next
    case B
    then have "n \<notin> ?V" "n \<noteq> ''solana_account_balance''" "n \<notin> ?H"
      "n \<noteq> ''solana_node_minimum_ledger_slot''" "n \<noteq> ''solana_node_first_available_block''"
      by auto
    then show ?thesis
      by (simp add: family_Collect_parts [OF ok] eA eC eD eE eF)
  next
    case C
    then have "n \<notin> ?V" "n \<noteq> ''solana_node_version''" "n \<notin> ?H"
      "n \<noteq> ''solana_node_minimum_ledger_slot''" "n \<noteq> ''solana_node_first_available_block''"
      by auto
    then show ?thesis
      by (simp add: family_Collect_parts [OF ok] eA eB eD eE eF)
  next
    case D
    then have "n \<notin> ?V" "n \<noteq> ''solana_node_version''" "n \<noteq> ''solana_account_balance''"
      "n \<noteq> ''solana_node_minimum_ledger_slot''" "n \<noteq> ''solana_node_first_available_block''"
      by auto
    then show ?thesis
      by (simp add: family_Collect_parts [OF ok] eA eB eC eE eF)
  next
    case E
    then have "n \<notin> ?V" "n \<noteq> ''solana_node_version''" "n \<noteq> ''solana_account_balance''"
      "n \<notin> ?H" "n \<noteq> ''solana_node_first_available_block''"
      by auto
    then show ?thesis
      by (simp add: family_Collect_parts [OF ok] eA eB eC eD eF)
  next
    case F
    then have "n \<notin> ?V" "n \<noteq> ''solana_node_version''" "n \<noteq> ''solana_account_balance''"
      "n \<notin> ?H" "n \<noteq> ''solana_node_minimum_ledger_slot''"
      by auto
    then show ?thesis
      by (simp add: family_Collect_parts [OF ok] eA eB eC eD eE)
  next
    case G
    then show ?thesis
      by (simp add: family_Collect_parts [OF ok] eA eB eC eD eE eF)
  qed
qed

text \<open>
  Claim C9. Within one scrape the observations of any one metric family are either all
  failure sentinels or all normal observations.
\<close>

theorem no_mixture_within_family:
  assumes c: "c = NewSolanaCollector p pace balanceAddrs nodekeys votekeys ident"
  shows "list_all is_invalid (family n (ch (Collect_scrape c h start)))
     \<or> list_all (\<lambda>m. \<not> is_invalid m) (family n (ch (Collect_scrape c h start)))"
proof -
  have ok: "descs_ok c" by (simp add: c descs_ok_New)
  note u = uniform_collectVoteAccounts [OF ok, THEN uniform_family, of n]
    uniform_collectVersion [OF ok, THEN uniform_family, of n]
    uniform_collectBalances [OF ok, THEN uniform_family, of n h]
    uniform_collectHealth [OF ok, THEN uniform_family, of n h]
    uniform_collectMinimumLedgerSlot [OF ok, THEN uniform_family, of n]
    uniform_collectFirstAvailableBlock [OF ok, THEN uniform_family, of n]
  have e: "list_all is_invalid [] \<or> list_all (\<lambda>m. \<not> is_invalid m) []" by simp
  from family_single_owner [OF ok, of n h] u e show ?thesis
    by (elim insertE emptyE) (simp_all only:)
qed

theorem no_mixture_within_family_witness:
  "(list_all is_invalid (family ''solana_validator_active''
       (ch (Collect_scrape (demo_collector vote_failure_provider) demo_helpers start)))
     \<or> list_all (\<lambda>m. \<not> is_invalid m) (family ''solana_validator_active''
       (ch (Collect_scrape (demo_collector vote_failure_provider) demo_helpers start))))
   \<and> (list_all is_invalid (family ''solana_node_is_healthy''
       (ch (Collect_scrape (demo_collector unhealthy_provider) demo_helpers start)))
     \<or> list_all (\<lambda>m. \<not> is_invalid m) (family ''solana_node_is_healthy''
       (ch (Collect_scrape (demo_collector unhealthy_provider) demo_helpers start))))"
  by (intro conjI no_mixture_within_family [OF demo_collector_def])

section \<open>The scrape as a whole\<close>

lemma family_Collect_tail:
  assumes ok: "descs_ok c"
    and n: "n \<in> {''solana_node_minimum_ledger_slot'', ''solana_node_first_available_block''}"
  shows "family n (ch (Collect_scrape c h start)) =
     (if status (collectHealth c h start) = Running
      then family n (ch (collectMinimumLedgerSlot c start))
        @ family n (ch (collectFirstAvailableBlock c start))
      else [])"
proof -
  have "family n (ch (collectVersion c start)) = []"
    using n names_collectVersion [OF ok] by (intro family_none) auto
  moreover have "family n (ch (collectBalances c h start)) = []"
    using n names_collectBalances [OF ok] by (intro family_none) auto
  moreover have "family n (ch (collectVoteAccounts c start)) = []"
    using n names_collectVoteAccounts [OF ok] by (intro family_none) fastforce
  moreover have "family n (ch (collectHealth c h start)) = []"
    using n names_collectHealth [OF ok] by (intro family_none) fastforce
  ultimately show ?thesis
    by (simp add: family_Collect_parts [OF ok])
qed

text \<open>
  Claim C1, as amended. The health sub-collection ends the process exactly when the health
  query fails with a structured RPC error whose payload is present and rejected by the
  decoder; for every other answer of the health query it returns. The observations of a
  scrape are those of vote accounts, version, balances and health, each as the
  sub-collection produces them on its own, followed by those of minimum ledger slot and
  first available block unless the health sub-collection has ended the process. Unless it
  has, the scrape runs to completion and makes the six queries in order. A sub-collection
  whose query fails (for health: with an error that is not a structured RPC error, or with
  one without payload) emits exactly its own failure sentinels, and what a sub-collection
  does is the same under any other provider and helpers that answer its own query in the
  same way.
\<close>

theorem Collect_isolation:
  assumes c: "c = NewSolanaCollector p pace balanceAddrs nodekeys votekeys ident"
    and c': "c' = NewSolanaCollector p' pace balanceAddrs nodekeys votekeys ident"
  shows "status (collectHealth c h start) =
           (case GetHealth p of
              Inr _ \<Rightarrow> Running
            | Inl err \<Rightarrow>
                (case errors_As err of
                   None \<Rightarrow> Running
                 | Some rpcError \<Rightarrow>
                     (case Data rpcError of
                        None \<Rightarrow> Running
                      | Some d \<Rightarrow>
                          (case UnpackRpcErrorData h rpcError \<lparr>NumSlotsBehind = 0\<rparr> of
                             None \<Rightarrow> Running
                           | Some err' \<Rightarrow> Exited))))
         \<and> ch (Collect_scrape c h start) =
           ch (collectVoteAccounts c start) @ ch (collectVersion c start)
           @ ch (collectBalances c h start) @ ch (collectHealth c h start)
           @ (if status (collectHealth c h start) = Running
              then ch (collectMinimumLedgerSlot c start)
                @ ch (collectFirstAvailableBlock c start)
              else [])
         \<and> (status (collectHealth c h start) = Running \<longrightarrow>
              status (Collect_scrape c h start) = Running
              \<and> filter (\<lambda>k. k \<noteq> CallUnpackRpcErrorData) (calls (Collect_scrape c h start)) =
                  [CallGetVoteAccounts, CallGetVersion, CallFetchBalances, CallGetHealth,
                   CallGetMinimumLedgerSlot, CallGetFirstAvailableBlock])
         \<and> (GetVoteAccounts p CommitmentConfirmed = Inl errVote \<longrightarrow>
              ch (collectVoteAccounts c start) =
                [InvalidMetric (ValidatorActive c) errVote,
                 InvalidMetric (ValidatorActiveStake c) errVote,
                 InvalidMetric (ValidatorLastVote c) errVote,
                 InvalidMetric (ValidatorRootSlot c) errVote,
                 InvalidMetric (ValidatorDelinquent c) errVote])
         \<and> (GetVersion p = Inl errVersion \<longrightarrow>
              ch (collectVersion c start) = [InvalidMetric (NodeVersion c) errVersion])
         \<and> (FetchBalances h (balanceAddresses c) = Inl errBalances \<longrightarrow>
              ch (collectBalances c h start) = [InvalidMetric (AccountBalances c) errBalances])
         \<and> (GetHealth p = Inl errHealth
              \<and> (case errors_As errHealth of None \<Rightarrow> True | Some rpcError \<Rightarrow> Data rpcError = None)
              \<longrightarrow> ch (collectHealth c h start) =
                [InvalidMetric (NodeIsHealthy c) errHealth, InvalidMetric (NodeNumSlotsBehind c) errHealth])
         \<and> (GetMinimumLedgerSlot p = Inl errSlot \<longrightarrow>
              ch (collectMinimumLedgerSlot c start) =
                [InvalidMetric (NodeMinimumLedgerSlot c) errSlot])
         \<and> (GetFirstAvailableBlock p = Inl errBlock \<longrightarrow>
              ch (collectFirstAvailableBlock c start) =
                [InvalidMetric (NodeFirstAvailableBlock c) errBlock])
         \<and> (GetVoteAccounts p' CommitmentConfirmed = GetVoteAccounts p CommitmentConfirmed
              \<longrightarrow> collectVoteAccounts c' start = collectVoteAccounts c start)
         \<and> (GetVersion p' = GetVersion p \<longrightarrow>
              collectVersion c' start = collectVersion c start)
         \<and> (FetchBalances h' = FetchBalances h \<longrightarrow>
              collectBalances c' h' start = collectBalances c h start)
         \<and> (GetHealth p' = GetHealth p \<and> UnpackRpcErrorData h' = UnpackRpcErrorData h \<longrightarrow>
              collectHealth c' h' start = collectHealth c h start)
         \<and> (GetMinimumLedgerSlot p' = GetMinimumLedgerSlot p \<longrightarrow>
              collectMinimumLedgerSlot c' start = collectMinimumLedgerSlot c start)
         \<and> (GetFirstAvailableBlock p' = GetFirstAvailableBlock p \<longrightarrow>
              collectFirstAvailableBlock c' start = collectFirstAvailableBlock c start)"
proof -
  have ok: "descs_ok c" by (simp add: c descs_ok_New)
  have sel: "rpcClient c = p" "rpcClient c' = p'" "identity c' = identity c"
    "balanceAddresses c' = balanceAddresses c"
    by (simp_all add: c c' New_sel)
  have descs: "ValidatorActive c' = ValidatorActive c"
    "ValidatorActiveStake c' = ValidatorActiveStake c"
    "ValidatorLastVote c' = ValidatorLastVote c"
    "ValidatorRootSlot c' = ValidatorRootSlot c"
    "ValidatorDelinquent c' = ValidatorDelinquent c"
    "AccountBalances c' = AccountBalances c" "NodeVersion c' = NodeVersion c"
    "NodeIsHealthy c' = NodeIsHealthy c" "NodeNumSlotsBehind c' = NodeNumSlotsBehind c"
    "NodeMinimumLedgerSlot c' = NodeMinimumLedgerSlot c"
    "NodeFirstAvailableBlock c' = NodeFirstAvailableBlock c"
    unfolding c c' by (rule New_descs)+
  have 0: "status (collectHealth c h start) =
           (case GetHealth p of
              Inr _ \<Rightarrow> Running
            | Inl err \<Rightarrow>
                (case errors_As err of
                   None \<Rightarrow> Running
                 | Some rpcError \<Rightarrow>
                     (case Data rpcError of
                        None \<Rightarrow> Running
                      | Some d \<Rightarrow>
                          (case UnpackRpcErrorData h rpcError \<lparr>NumSlotsBehind = 0\<rparr> of
                             None \<Rightarrow> Running
                           | Some err' \<Rightarrow> Exited))))"
  proof (cases "GetHealth p")
    case (Inr v)
    then have "GetHealth (rpcClient c) = Inr v" by (simp add: sel)
    from collectHealth_ok [OF ok this, of h] Inr show ?thesis by simp
  next
    case (Inl err)
    then have e: "GetHealth (rpcClient c) = Inl err" by (simp add: sel)
    show ?thesis
    proof (cases "errors_As err")
      case None
      from collectHealth_plain_error [OF e None, of h] Inl None show ?thesis by simp
    next
      case rpc: (Some rpcError)
      show ?thesis
      proof (cases "Data rpcError")
        case None
        from collectHealth_no_payload [OF e rpc None, of h] Inl rpc None show ?thesis by simp
      next
        case payload: (Some d)
        show ?thesis
        proof (cases "UnpackRpcErrorData h rpcError \<lparr>NumSlotsBehind = 0\<rparr>")
          case None
          from collectHealth_unpacked [OF ok e rpc payload None] Inl rpc payload None
          show ?thesis by simp
        next
          case (Some err')
          from collectHealth_fatal [OF e rpc payload Some] Inl rpc payload Some
          show ?thesis by simp
        qed
      qed
    qed
  qed
  have 1: "ch (Collect_scrape c h start) =
           ch (collectVoteAccounts c start) @ ch (collectVersion c start)
           @ ch (collectBalances c h start) @ ch (collectHealth c h start)
           @ (if status (collectHealth c h start) = Running
              then ch (collectMinimumLedgerSlot c start)
                @ ch (collectFirstAvailableBlock c start)
              else [])"
    by (rule ch_Collect [OF ok])
  have 2: "status (collectHealth c h start) = Running \<longrightarrow>
      status (Collect_scrape c h start) = Running
      \<and> filter (\<lambda>k. k \<noteq> CallUnpackRpcErrorData) (calls (Collect_scrape c h start)) =
          [CallGetVoteAccounts, CallGetVersion, CallFetchBalances, CallGetHealth,
           CallGetMinimumLedgerSlot, CallGetFirstAvailableBlock]"
  proof
    assume run: "status (collectHealth c h start) = Running"
    have "filter (\<lambda>k. k \<noteq> CallUnpackRpcErrorData) (calls (collectHealth c h start)) =
        [CallGetHealth]"
      using run by (cases rule: collectHealth_cases [OF ok, of h]) simp_all
    then have "filter (\<lambda>k. k \<noteq> CallUnpackRpcErrorData) (calls (Collect_scrape c h start)) =
        [CallGetVoteAccounts, CallGetVersion, CallFetchBalances, CallGetHealth,
         CallGetMinimumLedgerSlot, CallGetFirstAvailableBlock]"
      using run by (simp add: calls_Collect [OF ok])
    moreover have "status (Collect_scrape c h start) = Running"
      using run by (simp add: Collect_app [OF ok] status_collectFirstAvailableBlock [OF ok])
    ultimately show "status (Collect_scrape c h start) = Running
      \<and> filter (\<lambda>k. k \<noteq> CallUnpackRpcErrorData) (calls (Collect_scrape c h start)) =
          [CallGetVoteAccounts, CallGetVersion, CallFetchBalances, CallGetHealth,
           CallGetMinimumLedgerSlot, CallGetFirstAvailableBlock]"
      by (intro conjI)
  qed
  have 3: "GetVoteAccounts p CommitmentConfirmed = Inl errVote \<longrightarrow>
      ch (collectVoteAccounts c start) =
      [InvalidMetric (ValidatorActive c) errVote, InvalidMetric (ValidatorActiveStake c) errVote,
       InvalidMetric (ValidatorLastVote c) errVote, InvalidMetric (ValidatorRootSlot c) errVote,
       InvalidMetric (ValidatorDelinquent c) errVote]"
    by (simp add: collectVoteAccounts_fail sel)
  have 4: "GetVersion p = Inl errVersion \<longrightarrow>
      ch (collectVersion c start) = [InvalidMetric (NodeVersion c) errVersion]"
    by (simp add: collectVersion_fail sel)
  have 5: "FetchBalances h (balanceAddresses c) = Inl errBalances \<longrightarrow>
      ch (collectBalances c h start) = [InvalidMetric (AccountBalances c) errBalances]"
    by (simp add: collectBalances_fail)
  have 6: "(GetHealth p = Inl errHealth
      \<and> (case errors_As errHealth of None \<Rightarrow> True | Some rpcError \<Rightarrow> Data rpcError = None)) \<longrightarrow>
      ch (collectHealth c h start) =
      [InvalidMetric (NodeIsHealthy c) errHealth, InvalidMetric (NodeNumSlotsBehind c) errHealth]"
    by (simp add: collectHealth_sentinels sel)
  have 7: "GetMinimumLedgerSlot p = Inl errSlot \<longrightarrow>
      ch (collectMinimumLedgerSlot c start) = [InvalidMetric (NodeMinimumLedgerSlot c) errSlot]"
    by (simp add: collectMinimumLedgerSlot_fail sel)
  have 8: "GetFirstAvailableBlock p = Inl errBlock \<longrightarrow>
      ch (collectFirstAvailableBlock c start) =
      [InvalidMetric (NodeFirstAvailableBlock c) errBlock]"
    by (simp add: collectFirstAvailableBlock_fail sel)
  have 9: "GetVoteAccounts p' CommitmentConfirmed = GetVoteAccounts p CommitmentConfirmed \<longrightarrow>
      collectVoteAccounts c' start = collectVoteAccounts c start"
    by (simp add: collectVoteAccounts_cong [of c' c] sel descs)
  have 10: "GetVersion p' = GetVersion p \<longrightarrow>
      collectVersion c' start = collectVersion c start"
    by (simp add: collectVersion_cong [of c' c] sel descs)
  have 11: "FetchBalances h' = FetchBalances h \<longrightarrow>
      collectBalances c' h' start = collectBalances c h start"
    by (simp add: collectBalances_cong [of h' c' h c] sel descs)
  have 12: "(GetHealth p' = GetHealth p \<and> UnpackRpcErrorData h' = UnpackRpcErrorData h) \<longrightarrow>
      collectHealth c' h' start = collectHealth c h start"
    by (simp add: collectHealth_cong [of c' c h' h] sel descs)
  have 13: "GetMinimumLedgerSlot p' = GetMinimumLedgerSlot p \<longrightarrow>
      collectMinimumLedgerSlot c' start = collectMinimumLedgerSlot c start"
    by (simp add: collectMinimumLedgerSlot_cong [of c' c] sel descs)
  have 14: "GetFirstAvailableBlock p' = GetFirstAvailableBlock p \<longrightarrow>
      collectFirstAvailableBlock c' start = collectFirstAvailableBlock c start"
    by (simp add: collectFirstAvailableBlock_cong [of c' c] sel descs)
  from 0 1 2 3 4 5 6 7 8 9 10 11 12 13 14 show ?thesis
    by (intro conjI)
qed

theorem Collect_isolation_witness:
  "ch (Collect_scrape (demo_collector all_failing_provider) failing_helpers start) =
     [InvalidMetric (ValidatorActive (demo_collector all_failing_provider)) (ErrorString ''e1''),
      InvalidMetric (ValidatorActiveStake (demo_collector all_failing_provider))
        (ErrorString ''e1''),
      InvalidMetric (ValidatorLastVote (demo_collector all_failing_provider))
        (ErrorString ''e1''),
      InvalidMetric (ValidatorRootSlot (demo_collector all_failing_provider))
        (ErrorString ''e1''),
      InvalidMetric (ValidatorDelinquent (demo_collector all_failing_provider))
        (ErrorString ''e1''),
      InvalidMetric (NodeVersion (demo_collector all_failing_provider)) (ErrorString ''e2''),
      InvalidMetric (AccountBalances (demo_collector all_failing_provider))
        (ErrorString ''e3''),
      InvalidMetric (NodeIsHealthy (demo_collector all_failing_provider)) (ErrorString ''e4''),
      InvalidMetric (NodeNumSlotsBehind (demo_collector all_failing_provider))
        (ErrorString ''e4''),
      InvalidMetric (NodeMinimumLedgerSlot (demo_collector all_failing_provider))
        (ErrorString ''e5''),
      InvalidMetric (NodeFirstAvailableBlock (demo_collector all_failing_provider))
        (ErrorString ''e6'')]
   \<and> status (Collect_scrape (demo_collector all_failing_provider) failing_helpers start) =
       Running
   \<and> filter (\<lambda>k. k \<noteq> CallUnpackRpcErrorData)
       (calls (Collect_scrape (demo_collector all_failing_provider) failing_helpers start)) =
       [CallGetVoteAccounts, CallGetVersion, CallFetchBalances, CallGetHealth,
        CallGetMinimumLedgerSlot, CallGetFirstAvailableBlock]"
proof -
  let ?c = "demo_collector all_failing_provider"
  have p: "GetVoteAccounts all_failing_provider CommitmentConfirmed = Inl (ErrorString ''e1'')"
    "GetVersion all_failing_provider = Inl (ErrorString ''e2'')"
    "GetHealth all_failing_provider = Inl (ErrorString ''e4'')"
    "GetMinimumLedgerSlot all_failing_provider = Inl (ErrorString ''e5'')"
    "GetFirstAvailableBlock all_failing_provider = Inl (ErrorString ''e6'')"
    by (simp_all add: all_failing_provider_def)
  have b: "FetchBalances failing_helpers (balanceAddresses ?c) = Inl (ErrorString ''e3'')"
    by (simp add: failing_helpers_def)
  have "GetHealth (rpcClient ?c) = Inl (ErrorString ''e4'')"
    by (simp add: demo_collector_def New_sel p)
  then have run: "status (collectHealth ?c failing_helpers start) = Running"
    by (simp add: collectHealth_plain_error)
  note t = Collect_isolation [OF demo_collector_def [of all_failing_provider]
      demo_collector_def [of all_failing_provider],
      where h = failing_helpers and h' = failing_helpers
        and errVote = "ErrorString ''e1''" and errVersion = "ErrorString ''e2''"
        and errBalances = "ErrorString ''e3''" and errHealth = "ErrorString ''e4''"
        and errSlot = "ErrorString ''e5''" and errBlock = "ErrorString ''e6''"]
  from t p b run show ?thesis by simp
qed

text \<open>
  Claim C1 as stated fails: on a node whose health query fails with a structured RPC error
  carrying a payload that the decoder rejects, the process ends inside the health
  sub-collection. The minimum-ledger-slot and first-available-block queries, which would
  succeed, are never made, and their families stay empty.
\<close>

theorem Collect_not_all_six_counterexample:
  "GetMinimumLedgerSlot bad_payload_provider = Inr 10
   \<and> GetFirstAvailableBlock bad_payload_provider = Inr 5
   \<and> status (Collect_scrape (demo_collector bad_payload_provider) demo_helpers start) = Exited
   \<and> CallGetMinimumLedgerSlot
       \<notin> set (calls (Collect_scrape (demo_collector bad_payload_provider) demo_helpers start))
   \<and> CallGetFirstAvailableBlock
       \<notin> set (calls (Collect_scrape (demo_collector bad_payload_provider) demo_helpers start))
   \<and> family ''solana_node_minimum_ledger_slot''
       (ch (Collect_scrape (demo_collector bad_payload_provider) demo_helpers start)) = []
   \<and> family ''solana_node_first_available_block''
       (ch (Collect_scrape (demo_collector bad_payload_provider) demo_helpers start)) = []"
proof -
  let ?c = "demo_collector bad_payload_provider"
  let ?r = "\<lparr>Method = ''getHealth'', Data = Some (JStr ''behind'')\<rparr>"
  have ok: "descs_ok ?c" by (simp add: demo_collector_def descs_ok_New)
  have e: "GetHealth (rpcClient ?c) = Inl (RpcErr ?r)"
    by (simp add: demo_collector_def New_sel bad_payload_provider_def)
  have r: "errors_As (RpcErr ?r) = Some ?r" by simp
  have d: "Data ?r = Some (JStr ''behind'')" by simp
  have u: "UnpackRpcErrorData demo_helpers ?r \<lparr>NumSlotsBehind = 0\<rparr> =
      Some (ErrorString ''failed to unmarshal rpc-error data'')"
    by (simp add: demo_helpers_def UnpackRpcErrorData_spec_def decodeNumSlotsBehind_def)
  note H = collectHealth_fatal [OF e r d u]
  have "GetMinimumLedgerSlot bad_payload_provider = Inr 10"
    "GetFirstAvailableBlock bad_payload_provider = Inr 5"
    by (simp_all add: bad_payload_provider_def demo_provider_def)
  moreover have "status (Collect_scrape ?c demo_helpers start) = Exited"
    by (simp add: Collect_app [OF ok] H)
  moreover have "CallGetMinimumLedgerSlot \<notin> set (calls (Collect_scrape ?c demo_helpers start))"
    "CallGetFirstAvailableBlock \<notin> set (calls (Collect_scrape ?c demo_helpers start))"
    by (simp_all add: calls_Collect [OF ok] H)
  moreover have "family ''solana_node_minimum_ledger_slot''
      (ch (Collect_scrape ?c demo_helpers start)) = []"
    "family ''solana_node_first_available_block''
      (ch (Collect_scrape ?c demo_helpers start)) = []"
    by (simp_all add: family_Collect_tail [OF ok] H)
  ultimately show ?thesis by (intro conjI)
qed

end
